(* ===== verification/Prelude.thy ===== *)
theory Prelude
  imports Complex_Main "HOL-Library.Sublist"
begin

text \<open>
  Shared vocabulary of the AutoCDN front-end model. The components under
  \<open>src/frontend/src/components\<close> are React function components written in
  TypeScript; what they compute is expressed with a handful of JavaScript built-ins,
  which are modelled here once:
  \<^item> \<open>slice_last n xs\<close> is \<open>xs.slice(-n)\<close> (the last \<open>n\<close> elements, all of them
    when there are fewer), used by every log-appending event handler;
  \<^item> \<open>js_or m d\<close> is \<open>m || d\<close> for an optional string (\<open>undefined\<close> and the empty
    string are falsy);
  \<^item> JavaScript numbers that the code divides are modelled as \<open>rat\<close>
    (\<open>js_number\<close>): exact arithmetic, which agrees with IEEE doubles on the
    inputs the witnesses use.
  \<^item> \<open>jsnum\<close> is a JavaScript number that may be \<open>NaN\<close> (what \<open>parseInt\<close> and
    \<open>parseFloat\<close> return for an empty input); \<open>js_truthy_num\<close> is its truth value
    (\<open>0\<close> and \<open>NaN\<close> are falsy), so \<open>if (!x)\<close> is \<open>\<not> js_truthy_num x\<close>;
  \<^item> \<open>js_parseInt\<close> and \<open>js_parseFloat\<close> are the global functions on the strings an
    \<open><input type="number">\<close> produces: leading white space, an optional sign, the
    longest digit prefix (and for \<open>parseFloat\<close> a fraction and an exponent); no
    digits gives \<open>NaN\<close>. The hexadecimal prefix of \<open>parseInt\<close> and the literal
    \<open>Infinity\<close> are not modelled: a number input never yields them;
  \<^item> \<open>js_int_str\<close> is \<open>String(i)\<close> for an integer, as React renders a number
    \<open>value\<close>; \<open>parseInt\<close> reads it back (\<open>js_parseInt_int_str\<close>);
  \<^item> \<open>del_at i xs\<close> removes the \<open>i\<close>-th element (a call in flight that settles);
  \<^item> \<open>split_nl\<close> and \<open>join_nl\<close> are \<open>s.split("\\n")\<close> and \<open>xs.join("\\n")\<close>;
  \<^item> \<open>js_trim\<close> and \<open>js_endsWith\<close> are \<open>String.prototype.trim\<close> and
    \<open>endsWith\<close>; white space is the ASCII white space (the Unicode spaces beyond it
    are not modelled).
  The collection \<open>js_simps\<close> gathers the characteristic equations of these helpers so
  that component proofs can say \<open>simp add: js_simps\<close>.
\<close>

named_theorems js_simps "characteristic equations of the JavaScript built-ins"

type_synonym js_number = rat

datatype jsnum = Num rat | NaN

fun js_truthy_num :: "jsnum \<Rightarrow> bool" where
  "js_truthy_num (Num x) = (x \<noteq> 0)"
| "js_truthy_num NaN = False"

definition nl :: char where "nl = CHR 0x0A"

fun split_nl :: "string \<Rightarrow> string list" where
  "split_nl [] = [[]]"
| "split_nl (c # cs) =
     (if c = nl then [] # split_nl cs
      else (case split_nl cs of [] \<Rightarrow> [[c]] | w # ws \<Rightarrow> (c # w) # ws))"

fun join_nl :: "string list \<Rightarrow> string" where
  "join_nl [] = []"
| "join_nl [x] = x"
| "join_nl (x # y # xs) = x @ nl # join_nl (y # xs)"

definition js_ws :: "char \<Rightarrow> bool" where
  "js_ws c \<longleftrightarrow> c \<in> set [CHR 0x09, CHR 0x0A, CHR 0x0B, CHR 0x0C, CHR 0x0D, CHR 0x20]"

definition js_trim :: "string \<Rightarrow> string" where
  "js_trim s = rev (dropWhile js_ws (rev (dropWhile js_ws s)))"

definition js_endsWith :: "string \<Rightarrow> string \<Rightarrow> bool" where
  "js_endsWith s t \<longleftrightarrow> length t \<le> length s \<and> drop (length s - length t) s = t"

definition is_digit :: "char \<Rightarrow> bool" where
  "is_digit c \<longleftrightarrow> 48 \<le> (of_char c :: nat) \<and> (of_char c :: nat) \<le> 57"

definition digits_val :: "string \<Rightarrow> nat" where
  "digits_val ds = foldl (\<lambda>n c. 10 * n + (of_char c - 48)) 0 ds"

definition js_sign :: "string \<Rightarrow> bool \<times> string" where
  "js_sign s =
     (case s of [] \<Rightarrow> (False, [])
      | c # r \<Rightarrow> (if c = CHR ''-'' then (True, r) else if c = CHR ''+'' then (False, r)
                  else (False, s)))"

definition js_parseInt :: "string \<Rightarrow> jsnum" where
  "js_parseInt s =
     (let (neg, r) = js_sign (dropWhile js_ws s); ds = takeWhile is_digit r
      in if ds = [] then NaN
         else Num (if neg then - of_nat (digits_val ds) else of_nat (digits_val ds)))"

definition js_exponent :: "string \<Rightarrow> int" where
  "js_exponent r =
     (case r of [] \<Rightarrow> 0
      | c # t \<Rightarrow>
        (if c = CHR ''e'' \<or> c = CHR ''E'' then
           (let (neg, u) = js_sign t; ds = takeWhile is_digit u
            in if ds = [] then 0 else if neg then - int (digits_val ds) else int (digits_val ds))
         else 0))"

definition js_parseFloat :: "string \<Rightarrow> jsnum" where
  "js_parseFloat s =
     (let (neg, r) = js_sign (dropWhile js_ws s);
          ip = takeWhile is_digit r; r2 = dropWhile is_digit r;
          (fp, r3) = (case r2 of [] \<Rightarrow> ([], r2)
                      | c # t \<Rightarrow> (if c = CHR ''.'' then (takeWhile is_digit t, dropWhile is_digit t)
                                  else ([], r2)));
          m = of_nat (digits_val (ip @ fp)) / 10 ^ length fp * power_int 10 (js_exponent r3)
      in if ip = [] \<and> fp = [] then NaN else Num (if neg then - m else m))"

text \<open>\<open>String(n)\<close> for an integer \<open>n\<close>, as React renders a numeric \<open>value\<close>
  prop: its decimal digits, most significant first, with a minus sign when negative.\<close>

fun nat_digits :: "nat \<Rightarrow> string" where
  "nat_digits n =
     (if n < 10 then [char_of (48 + n)] else nat_digits (n div 10) @ [char_of (48 + n mod 10)])"

declare nat_digits.simps [simp del]

definition js_int_str :: "int \<Rightarrow> string" where
  "js_int_str i = (if i < 0 then CHR ''-'' # nat_digits (nat (- i)) else nat_digits (nat i))"

lemmas js_number_defs = js_parseInt_def js_parseFloat_def js_sign_def js_exponent_def
  is_digit_def digits_val_def js_ws_def

definition slice_last :: "nat \<Rightarrow> 'a list \<Rightarrow> 'a list" where
  "slice_last n xs = drop (length xs - n) xs"

text \<open>Removing the \<open>i\<close>-th element: a call in flight that settles leaves the list of
  calls in flight.\<close>

definition del_at :: "nat \<Rightarrow> 'a list \<Rightarrow> 'a list" where
  "del_at i xs = take i xs @ drop (Suc i) xs"

definition js_or :: "string option \<Rightarrow> string \<Rightarrow> string" where
  "js_or m d = (case m of None \<Rightarrow> d | Some s \<Rightarrow> (if s = [] then d else s))"

declare slice_last_def [js_simps] js_or_def [js_simps]

subsection \<open>\<open>slice(-n)\<close>: a bounded suffix\<close>

lemma slice_last_Nil [simp]: "slice_last n [] = []"
  by (simp add: slice_last_def)

lemma length_slice_last [simp]: "length (slice_last n xs) = min n (length xs)"
  by (simp add: slice_last_def)

lemma slice_last_short [simp]: "length xs \<le> n \<Longrightarrow> slice_last n xs = xs"
  by (simp add: slice_last_def)

lemma slice_last_suffix: "suffix (slice_last n xs) xs"
  by (simp add: slice_last_def suffix_drop)

lemma slice_last_absorb:
  "slice_last n (slice_last n xs @ ys) = slice_last n (xs @ ys)"
proof (cases "length xs \<le> n")
  case True
  then show ?thesis by simp
next
  case False
  then show ?thesis by (simp add: slice_last_def min_def add.commute)
qed

lemma slice_last_snoc_full:
  assumes "length xs = n" and "0 < n"
  shows "slice_last n (xs @ [x]) = tl xs @ [x]"
  using assms by (simp add: slice_last_def drop_Suc)

lemma slice_last_snoc_last:
  "0 < n \<Longrightarrow> last (slice_last n (xs @ [x])) = x"
  by (simp add: slice_last_def)

lemma slice_last_snoc_mem:
  "0 < n \<Longrightarrow> x \<in> set (slice_last n (xs @ [x]))"
  by (simp add: slice_last_def)

lemma slice_last_le: "length (slice_last n xs) \<le> n"
  by simp

subsection \<open>\<open>||\<close> on optional strings\<close>

lemma js_or_simps [simp]:
  "js_or None d = d"
  "js_or (Some []) d = d"
  "s \<noteq> [] \<Longrightarrow> js_or (Some s) d = s"
  by (simp_all add: js_or_def)

lemma js_or_nonempty: "d \<noteq> [] \<Longrightarrow> js_or m d \<noteq> []"
  by (simp add: js_or_def split: option.splits)

subsection \<open>\<open>split\<close> and \<open>join\<close> on newlines\<close>

lemma split_nl_not_Nil [simp]: "split_nl s \<noteq> []"
  by (induction s) (auto split: list.splits)

lemma join_nl_Cons_Cons: "join_nl ((c # w) # ws) = c # join_nl (w # ws)"
  by (cases ws) simp_all

lemma join_split_nl: "join_nl (split_nl s) = s"
proof (induction s)
  case Nil
  then show ?case by simp
next
  case (Cons c cs)
  obtain w ws where sp: "split_nl cs = w # ws"
    using split_nl_not_Nil by (cases "split_nl cs") blast+
  show ?case
  proof (cases "c = nl")
    case True
    with Cons.IH sp show ?thesis by simp
  next
    case False
    with Cons.IH sp show ?thesis by (simp add: join_nl_Cons_Cons)
  qed
qed

lemma split_nl_no_nl: "nl \<notin> set x \<Longrightarrow> split_nl x = [x]"
  by (induction x) auto

lemma split_nl_append_nl: "nl \<notin> set x \<Longrightarrow> split_nl (x @ nl # r) = x # split_nl r"
  by (induction x) auto

lemma split_join_nl:
  "xs \<noteq> [] \<Longrightarrow> list_all (\<lambda>x. nl \<notin> set x) xs \<Longrightarrow> split_nl (join_nl xs) = xs"
  by (induction xs rule: join_nl.induct) (simp_all add: split_nl_no_nl split_nl_append_nl)

subsection \<open>\<open>trim\<close> and \<open>endsWith\<close>\<close>

lemma js_endsWith_append [simp]: "js_endsWith (s @ t) t"
  by (simp add: js_endsWith_def)

lemma js_endsWith_suffix: "js_endsWith s t \<longleftrightarrow> suffix t s"
proof
  assume "js_endsWith s t"
  then have "s = take (length s - length t) s @ t"
    by (metis js_endsWith_def append_take_drop_id)
  then show "suffix t s" unfolding suffix_def by blast
next
  assume "suffix t s"
  then obtain u where "s = u @ t" by (auto simp: suffix_def)
  then show "js_endsWith s t" by simp
qed

lemma dropWhile_last_nonempty:
  "dropWhile P xs \<noteq> [] \<Longrightarrow> last (dropWhile P xs) = last xs"
  by (metis append.left_neutral dropWhile_eq_Nil_conv last_appendR takeWhile_dropWhile_id)

lemma js_trim_ends:
  assumes "js_trim s \<noteq> []"
  shows "\<not> js_ws (hd (js_trim s)) \<and> \<not> js_ws (last (js_trim s))"
proof -
  let ?u = "dropWhile js_ws s"
  let ?v = "dropWhile js_ws (rev ?u)"
  have v: "?v \<noteq> []" using assms by (simp add: js_trim_def)
  then have u: "?u \<noteq> []" by (metis dropWhile.simps(1) rev.simps(1))
  have "hd (js_trim s) = last ?v" using v by (simp add: js_trim_def hd_rev)
  also have "\<dots> = last (rev ?u)" using v by (rule dropWhile_last_nonempty)
  also have "\<dots> = hd ?u" using u by (simp add: last_rev)
  finally have "\<not> js_ws (hd (js_trim s))" using u by (simp add: hd_dropWhile)
  moreover have "\<not> js_ws (last (js_trim s))"
    using v by (simp add: js_trim_def last_rev hd_dropWhile)
  ultimately show ?thesis by blast
qed

lemma js_trim_id:
  assumes "t = [] \<or> (\<not> js_ws (hd t) \<and> \<not> js_ws (last t))"
  shows "js_trim t = t"
proof (cases "t = []")
  case True
  then show ?thesis by (simp add: js_trim_def)
next
  case False
  with assms have h: "\<not> js_ws (hd t)" and l: "\<not> js_ws (hd (rev t))" by (simp_all add: hd_rev)
  from h have "dropWhile js_ws t = t" by (simp add: dropWhile_eq_self_iff)
  moreover from l have "dropWhile js_ws (rev t) = rev t" by (simp add: dropWhile_eq_self_iff)
  ultimately show ?thesis by (simp add: js_trim_def)
qed

lemma js_trim_idem [simp]: "js_trim (js_trim s) = js_trim s"
  using js_trim_ends [of s] by (blast intro: js_trim_id)


lemma del_at_0 [simp]: "del_at 0 (x # xs) = xs"
  by (simp add: del_at_def)

lemma length_del_at [simp]: "i < length xs \<Longrightarrow> length (del_at i xs) = length xs - 1"
  by (simp add: del_at_def)


lemma digits_val_snoc: "digits_val (xs @ [c]) = 10 * digits_val xs + (of_char c - 48)"
  by (simp add: digits_val_def)

lemma of_char_digit: "k < 10 \<Longrightarrow> (of_char (char_of (48 + k)) :: nat) = 48 + k"
  by (simp add: of_char_of)

lemma takeWhile_all: "list_all P xs \<Longrightarrow> takeWhile P xs = xs"
  by (induction xs) auto

lemma nat_digits_props:
  "nat_digits n \<noteq> [] \<and> list_all is_digit (nat_digits n) \<and> digits_val (nat_digits n) = n"
proof (induction n rule: nat_digits.induct)
  case (1 n)
  show ?case
  proof (cases "n < 10")
    case True
    then show ?thesis
      by (simp add: nat_digits.simps [of n] is_digit_def digits_val_def of_char_digit)
  next
    case False
    then have ih: "list_all is_digit (nat_digits (n div 10)) \<and> digits_val (nat_digits (n div 10)) = n div 10"
      using "1.IH" by simp
    have d: "is_digit (char_of (48 + n mod 10))" by (simp add: is_digit_def of_char_digit)
    have "digits_val (nat_digits (n div 10) @ [char_of (48 + n mod 10)]) = n"
      using ih by (simp add: digits_val_snoc of_char_digit)
    then show ?thesis using False ih d by (simp add: nat_digits.simps [of n])
  qed
qed

lemma nat_digits_hd:
  "\<not> js_ws (hd (nat_digits n)) \<and> hd (nat_digits n) \<noteq> CHR ''-'' \<and> hd (nat_digits n) \<noteq> CHR ''+''"
proof -
  have "list_all is_digit (nat_digits n)" and ne: "nat_digits n \<noteq> []" using nat_digits_props by auto
  then have "is_digit (hd (nat_digits n))" by (cases "nat_digits n") auto
  then show ?thesis by (auto simp: is_digit_def js_ws_def)
qed

lemma js_parseInt_nat_digits: "js_parseInt (nat_digits n) = Num (of_nat n)"
proof -
  obtain c cs where e: "nat_digits n = c # cs"
    using nat_digits_props [of n] by (cases "nat_digits n") auto
  have h: "\<not> js_ws c \<and> c \<noteq> CHR ''-'' \<and> c \<noteq> CHR ''+''" using nat_digits_hd [of n] e by simp
  have p: "list_all is_digit (nat_digits n) \<and> digits_val (nat_digits n) = n"
    using nat_digits_props by blast
  show ?thesis using h p e by (simp add: js_parseInt_def js_sign_def takeWhile_all)
qed

text \<open>\<open>parseInt\<close> reads back what \<open>String\<close> prints, for every integer.\<close>

lemma js_parseInt_int_str: "js_parseInt (js_int_str i) = Num (of_int i)"
proof (cases "i < 0")
  case True
  obtain c cs where e: "nat_digits (nat (- i)) = c # cs"
    using nat_digits_props [of "nat (- i)"] by (cases "nat_digits (nat (- i))") auto
  have p: "list_all is_digit (nat_digits (nat (- i))) \<and> digits_val (nat_digits (nat (- i))) = nat (- i)"
    using nat_digits_props by blast
  show ?thesis
    using True p e by (simp add: js_int_str_def js_parseInt_def js_sign_def js_ws_def takeWhile_all)
next
  case False
  then show ?thesis by (simp add: js_int_str_def js_parseInt_nat_digits)
qed

end
