(* ===== verification/Events.thy ===== *)
theory Events
  imports Prelude
begin

text \<open>
  The event-stream multiplexer of \<open>src/frontend/src/components/Dashboard.tsx\<close>.
  The Dashboard keeps four pieces of React state (lines 18--21), modelled as the
  record \<open>dash\<close>. Its mount effect (lines 24--48) registers one handler on each of
  the four Wails runtime channels \<open>log\<close>, \<open>status\<close>, \<open>progress\<close> and \<open>error\<close>;
  each handler is one definition below (\<open>onLog\<close>, \<open>onStatus\<close>, \<open>onProgress\<close>,
  \<open>onError\<close>), and \<open>dispatch\<close> routes a channel message to its handler.
  Every functional state update \<open>setX(prev => \<dots>)\<close> is a record update.

  The code's user-visible strings are Chinese; the model writes each as an ASCII
  translation, defined once here: the log tags \<open>[ri zhi]\<close>, \<open>[zhuang tai]\<close>,
  \<open>[cuo wu]\<close>, \<open>[zhi ming cuo wu]\<close> become \<open>tag_log\<close>, \<open>tag_status\<close>,
  \<open>tag_error\<close>, \<open>tag_fatal\<close>, and the status texts \<open>jiu xu\<close> (ready),
  \<open>zheng zai chu shi hua...\<close> (initialising), \<open>yi wan cheng / yi ting zhi\<close>
  (finished / stopped) and \<open>ce su zhong...\<close> (testing) become \<open>status_ready\<close>,
  \<open>status_init\<close>, \<open>status_finished\<close> and \<open>status_testing\<close>. No property
  depends on the characters, only on the four tags being distinct prefixes.
\<close>

definition tag_log :: string where "tag_log = ''[log] ''"
definition tag_status :: string where "tag_status = ''[status] ''"
definition tag_error :: string where "tag_error = ''[error] ''"
definition tag_fatal :: string where "tag_fatal = ''[fatal] ''"

definition status_ready :: string where "status_ready = ''Ready''"
definition status_init :: string where "status_init = ''Initializing...''"
definition status_finished :: string where "status_finished = ''Finished / Stopped''"
definition status_testing :: string where "status_testing = ''Testing...''"

lemmas dash_strings = tag_log_def tag_status_def tag_error_def tag_fatal_def
  status_ready_def status_init_def status_finished_def status_testing_def

record dash =
  running :: bool
  progress :: js_number
  statusAction :: string
  logs :: "string list"

definition dash_init :: dash where
  "dash_init = \<lparr>running = False, progress = 0, statusAction = status_ready, logs = []\<rparr>"

text \<open>A message of one of the four channels; \<open>EvProgress current total msg\<close> is the
  payload \<open>{current, total, msg?}\<close> of the \<open>progress\<close> channel.\<close>

datatype event =
    EvLog string
  | EvStatus string
  | EvProgress js_number js_number "string option"
  | EvError string

datatype channel = ChLog | ChStatus | ChProgress | ChError

subsection \<open>The four handlers\<close>

definition onLog :: "string \<Rightarrow> dash \<Rightarrow> dash" where
  "onLog msg d = d\<lparr>logs := slice_last 100 (logs d @ [tag_log @ msg])\<rparr>"

definition onStatus :: "string \<Rightarrow> dash \<Rightarrow> dash" where
  "onStatus msg d =
     d\<lparr>statusAction := msg, logs := slice_last 100 (logs d @ [tag_status @ msg])\<rparr>"

definition onProgress :: "js_number \<Rightarrow> js_number \<Rightarrow> string option \<Rightarrow> dash \<Rightarrow> dash" where
  "onProgress cur tot msg d =
     d\<lparr>progress := (if 0 < tot then cur / tot * 100 else progress d),
       statusAction := js_or msg status_testing\<rparr>"

definition onError :: "string \<Rightarrow> dash \<Rightarrow> dash" where
  "onError msg d = d\<lparr>logs := slice_last 100 (logs d @ [tag_error @ msg])\<rparr>"

named_theorems handler_defs "the Dashboard's event handlers"
declare onLog_def [handler_defs] onStatus_def [handler_defs]
  onProgress_def [handler_defs] onError_def [handler_defs]

fun dispatch :: "dash \<Rightarrow> event \<Rightarrow> dash" where
  "dispatch d (EvLog m) = onLog m d"
| "dispatch d (EvStatus m) = onStatus m d"
| "dispatch d (EvProgress c t m) = onProgress c t m d"
| "dispatch d (EvError m) = onError m d"

definition deliver :: "dash \<Rightarrow> event list \<Rightarrow> dash" where
  "deliver d evs = foldl dispatch d evs"

fun channel_of :: "event \<Rightarrow> channel" where
  "channel_of (EvLog _) = ChLog"
| "channel_of (EvStatus _) = ChStatus"
| "channel_of (EvProgress _ _ _) = ChProgress"
| "channel_of (EvError _) = ChError"

text \<open>The log lines a message appends, before the 100-line window is applied: the
  unbounded history that the bounded \<open>logs\<close> is a window of.\<close>

fun entries :: "event \<Rightarrow> string list" where
  "entries (EvLog m) = [tag_log @ m]"
| "entries (EvStatus m) = [tag_status @ m]"
| "entries (EvProgress _ _ _) = []"
| "entries (EvError m) = [tag_error @ m]"

subsection \<open>Characteristic lemmas\<close>

lemma deliver_Nil [simp]: "deliver d [] = d"
  by (simp add: deliver_def)

lemma deliver_Cons [simp]: "deliver d (ev # evs) = deliver (dispatch d ev) evs"
  by (simp add: deliver_def)

lemma deliver_append: "deliver d (xs @ ys) = deliver (deliver d xs) ys"
  by (simp add: deliver_def)

lemma logs_dispatch:
  "logs (dispatch d ev) =
     (if entries ev = [] then logs d else slice_last 100 (logs d @ entries ev))"
  by (cases ev) (simp_all add: handler_defs)

lemma running_dispatch [simp]: "running (dispatch d ev) = running d"
  by (cases ev) (simp_all add: handler_defs)

lemma progress_dispatch:
  "progress (dispatch d ev) =
     (case ev of EvProgress c t m \<Rightarrow> (if 0 < t then c / t * 100 else progress d)
      | _ \<Rightarrow> progress d)"
  by (cases ev) (simp_all add: handler_defs)

lemma dispatch_pow_running [simp]:
  "running (((\<lambda>d. dispatch d ev) ^^ n) d) = running d"
  by (induction n) simp_all

lemma logs_dispatch_window:
  "logs d = slice_last 100 h \<Longrightarrow> logs (dispatch d ev) = slice_last 100 (h @ entries ev)"
  by (simp add: logs_dispatch slice_last_absorb)

lemma length_logs_dispatch:
  "length (logs (dispatch d ev)) \<le> max 100 (length (logs d))"
  by (cases ev) (simp_all add: handler_defs)

lemma length_logs_dispatch_pow:
  "length (logs (((\<lambda>d. dispatch d ev) ^^ n) d)) \<le> max 100 (length (logs d))"
proof (induction n)
  case 0
  then show ?case by simp
next
  case (Suc n)
  have "length (logs (dispatch (((\<lambda>d. dispatch d ev) ^^ n) d) ev))
        \<le> max 100 (length (logs (((\<lambda>d. dispatch d ev) ^^ n) d)))"
    by (rule length_logs_dispatch)
  with Suc.IH show ?case by simp
qed

lemma logs_deliver_replicate:
  "logs d = slice_last 100 h \<Longrightarrow>
   logs (deliver d (replicate n (EvLog m))) = slice_last 100 (h @ replicate n (tag_log @ m))"
proof (induction n arbitrary: d h)
  case 0
  then show ?case by simp
next
  case (Suc n)
  have "logs (dispatch d (EvLog m)) = slice_last 100 (h @ [tag_log @ m])"
    using Suc.prems by (simp add: onLog_def slice_last_absorb)
  then show ?case using Suc.IH [of "dispatch d (EvLog m)" "h @ [tag_log @ m]"] by simp
qed

subsection \<open>Properties of the multiplexer\<close>

text \<open>C10. The bounded log is a window on the unbounded history: if the Dashboard's
  \<open>logs\<close> are the last 100 lines of a history \<open>h\<close>, then after any sequence of
  channel messages they are the last 100 lines of \<open>h\<close> followed by the lines the
  messages append, in delivery order. The 100-line FIFO refines an unbounded append-only
  log.\<close>

theorem deliver_logs_window:
  assumes "logs d = slice_last 100 h"
  shows "logs (deliver d evs) = slice_last 100 (h @ concat (map entries evs))"
  using assms
proof (induction evs arbitrary: d h)
  case Nil
  then show ?case by simp
next
  case (Cons ev evs)
  from Cons.prems have "logs (dispatch d ev) = slice_last 100 (h @ entries ev)"
    by (rule logs_dispatch_window)
  then show ?case using Cons.IH by simp
qed

theorem deliver_logs_window_witness:
  "logs dash_init = slice_last 100 []
   \<and> logs (deliver dash_init [EvLog ''a'', EvProgress 1 2 None, EvError ''b''])
       = slice_last 100 ([] @ concat (map entries [EvLog ''a'', EvProgress 1 2 None, EvError ''b'']))"
  using deliver_logs_window [of dash_init "[]" "[EvLog ''a'', EvProgress 1 2 None, EvError ''b'']"]
  by (simp add: dash_init_def)

text \<open>Channel messages alone never let the log grow beyond 100 lines: from a log
  of at most 100 lines, any sequence of messages on any channels leaves at most 100.\<close>

theorem deliver_logs_bound:
  "length (logs d) \<le> 100 \<Longrightarrow> length (logs (deliver d evs)) \<le> 100"
proof (induction evs arbitrary: d)
  case Nil
  then show ?case by simp
next
  case (Cons ev evs)
  have "length (logs (dispatch d ev)) \<le> 100"
    using length_logs_dispatch [of d ev] Cons.prems by simp
  then show ?case using Cons.IH by simp
qed

theorem deliver_logs_bound_witness:
  "length (logs dash_init) \<le> 100 \<and> length (logs (deliver dash_init [EvStatus ''s'', EvLog ''l''])) \<le> 100"
  using deliver_logs_bound [of dash_init "[EvStatus ''s'', EvLog ''l'']"] by (simp add: dash_init_def)

text \<open>C12. Appending the 101st line evicts the oldest: when the log holds 100 lines,
  a message that appends a line \<open>x\<close> drops the first line and puts \<open>x\<close> last.\<close>

theorem dispatch_evicts_oldest:
  assumes "length (logs d) = 100" and "entries ev = [x]"
  shows "logs (dispatch d ev) = tl (logs d) @ [x]"
  using assms by (simp add: logs_dispatch slice_last_snoc_full)

theorem dispatch_evicts_oldest_witness:
  "length (logs (dash_init\<lparr>logs := replicate 100 ''old''\<rparr>)) = 100
   \<and> entries (EvLog ''new'') = [tag_log @ ''new'']
   \<and> logs (dispatch (dash_init\<lparr>logs := replicate 100 ''old''\<rparr>) (EvLog ''new''))
       = replicate 99 ''old'' @ [tag_log @ ''new'']"
  using dispatch_evicts_oldest [of "dash_init\<lparr>logs := replicate 100 ''old''\<rparr>" "EvLog ''new''"
      "tag_log @ ''new''"]
  by (simp add: numeral_eq_Suc)

text \<open>C15. Only the progress channel writes \<open>progress\<close>, and only when
  \<open>total > 0\<close>, to \<open>current / total * 100\<close>; with \<open>total \<le> 0\<close> the percentage is
  left as it was (no division).\<close>

theorem progress_only_by_progress_channel:
  "progress (dispatch d (EvProgress c t m)) = (if 0 < t then c / t * 100 else progress d)
   \<and> (channel_of ev \<noteq> ChProgress \<longrightarrow> progress (dispatch d ev) = progress d)"
  by (cases ev) (simp_all add: handler_defs)

theorem progress_only_by_progress_channel_witness:
  "progress (dispatch dash_init (EvProgress 5 0 None)) = progress dash_init
   \<and> channel_of (EvLog ''x'') \<noteq> ChProgress
   \<and> progress (dispatch dash_init (EvLog ''x'')) = progress dash_init"
  using progress_only_by_progress_channel [of dash_init 5 0 None "EvLog ''x''"] by simp

text \<open>C16. With \<open>0 \<le> current \<le> total\<close> and \<open>total > 0\<close> the percentage lies in
  [0, 100]; \<open>current = 30, total = 120\<close> gives exactly 25.\<close>

theorem progress_in_range:
  assumes "0 < t" and "0 \<le> c" and "c \<le> t"
  shows "0 \<le> progress (dispatch d (EvProgress c t m)) \<and> progress (dispatch d (EvProgress c t m)) \<le> 100"
proof -
  have "c * 100 / t \<le> 100" using assms by (simp add: pos_divide_le_eq)
  moreover have "0 \<le> c * 100 / t" using assms by simp
  ultimately show ?thesis using assms(1) by (simp add: handler_defs)
qed

theorem progress_in_range_witness:
  "0 < (120::rat) \<and> 0 \<le> (30::rat) \<and> (30::rat) \<le> 120
   \<and> 0 \<le> progress (dispatch dash_init (EvProgress 30 120 None))
   \<and> progress (dispatch dash_init (EvProgress 30 120 None)) = 25"
  using progress_in_range [of 120 30 dash_init None] by (simp add: handler_defs)

text \<open>C17. The percentage is not clamped: a progress message with
  \<open>current > total > 0\<close> sets it above 100 (the spec asks for a defensive clamp).\<close>

theorem progress_unclamped:
  assumes "0 < t" and "t < c"
  shows "100 < progress (dispatch d (EvProgress c t m))"
proof -
  have "100 < c * 100 / t" using assms by (simp add: pos_less_divide_eq)
  then show ?thesis using assms(1) by (simp add: handler_defs)
qed

theorem progress_unclamped_witness:
  "0 < (100::rat) \<and> (100::rat) < 150 \<and> progress (dispatch dash_init (EvProgress 150 100 None)) = 150"
  using progress_unclamped [of 100 150 dash_init None] by (simp add: handler_defs)

text \<open>C18. A progress message without \<open>msg\<close> sets the status text to the default
  "testing" text even when an earlier progress message carried one: the status of a
  previous progress message is not kept (the spec says it is).\<close>

theorem progress_status_not_kept:
  "statusAction (dispatch (dispatch d (EvProgress c t (Some s))) (EvProgress c' t' None)) = status_testing"
  by (simp add: handler_defs)

text \<open>No channel message starts or ends a run: \<open>running\<close> is the same after
  any sequence of messages.\<close>

theorem events_keep_running: "running (deliver d evs) = running d"
  by (induction evs arbitrary: d) simp_all

text \<open>The log and error channels write the log only: each appends its tagged line
  to the 100-line window and leaves the status text, the percentage and \<open>running\<close>
  unchanged.\<close>

theorem log_error_frame:
  assumes "channel_of ev \<in> {ChLog, ChError}"
  shows "statusAction (dispatch d ev) = statusAction d \<and> progress (dispatch d ev) = progress d
         \<and> running (dispatch d ev) = running d
         \<and> logs (dispatch d ev) = slice_last 100 (logs d @ entries ev)"
  using assms by (cases ev) (simp_all add: handler_defs)

theorem log_error_frame_witness:
  "channel_of (EvError ''e'') \<in> {ChLog, ChError}
   \<and> statusAction (dispatch dash_init (EvError ''e'')) = statusAction dash_init
   \<and> logs (dispatch dash_init (EvError ''e'')) = [tag_error @ ''e'']"
  using log_error_frame [of "EvError ''e''" dash_init] by (simp add: dash_init_def)

text \<open>Messages of the log or error channel commute with progress messages: the
  two write disjoint parts of the state, so their relative order, which the runtime does
  not fix, does not matter.\<close>

theorem log_progress_commute:
  assumes "channel_of e1 \<in> {ChLog, ChError}" and "channel_of e2 = ChProgress"
  shows "dispatch (dispatch d e1) e2 = dispatch (dispatch d e2) e1"
  using assms by (cases e1; cases e2) (simp_all add: handler_defs)

theorem log_progress_commute_witness:
  "channel_of (EvLog ''l'') \<in> {ChLog, ChError} \<and> channel_of (EvProgress 1 2 None) = ChProgress
   \<and> dispatch (dispatch dash_init (EvLog ''l'')) (EvProgress 1 2 None)
     = dispatch (dispatch dash_init (EvProgress 1 2 None)) (EvLog ''l'')"
  using log_progress_commute [of "EvLog ''l''" "EvProgress 1 2 None" dash_init] by simp

end
