(* ===== verification/DashboardView.thy ===== *)
theory DashboardView
  imports Events
begin

text \<open>
  What the Dashboard renders (\<open>src/frontend/src/components/Dashboard.tsx\<close>, the JSX of
  lines 79--202), as a function of its props and state: \<open>dashboard_view\<close> maps the App's
  \<open>activeConfig\<close> and the state \<open>dash\<close> to a record \<open>dash_view\<close> of what the user
  sees and can click. Layout, styling and icons are left out; every condition of the JSX is
  kept. The two mode cards each render one button (lines 104--121 and 136--154): a start
  button when not running, disabled without a configuration, and a stop button while
  running. The status line and the progress bar appear only while running
  (lines 167--182); the log panel shows a placeholder when there is no line
  (lines 185--187) and the lines in order (lines 188--195).

  The task controller's step relation takes its click guards from this view: a click is a
  step only on a button the view offers.
\<close>

datatype mode = Auto | Manual

text \<open>A start button carries its mode and whether it is disabled.\<close>

datatype button = StartButton mode bool | StopButton

record dash_view =
  configLabel :: string
  autoButton :: button
  manualButton :: button
  statusShown :: "string option"
  progressBar :: "js_number option"
  placeholder :: bool
  logLines :: "string list"

definition label_none :: string where "label_none = ''Not selected''"

definition card_button :: "mode \<Rightarrow> string \<Rightarrow> dash \<Rightarrow> button" where
  "card_button m activeConfig d =
     (if \<not> running d then StartButton m (activeConfig = []) else StopButton)"

definition dashboard_view :: "string \<Rightarrow> dash \<Rightarrow> dash_view" where
  "dashboard_view activeConfig d =
     \<lparr>configLabel = (if activeConfig = [] then label_none else activeConfig),
      autoButton = card_button Auto activeConfig d,
      manualButton = card_button Manual activeConfig d,
      statusShown = (if running d then Some (statusAction d) else None),
      progressBar = (if running d then Some (progress d) else None),
      placeholder = (logs d = []),
      logLines = logs d\<rparr>"

definition buttons :: "dash_view \<Rightarrow> button list" where
  "buttons v = [autoButton v, manualButton v]"

definition start_enabled :: "mode \<Rightarrow> dash_view \<Rightarrow> bool" where
  "start_enabled m v \<longleftrightarrow> StartButton m False \<in> set (buttons v)"

definition stop_shown :: "dash_view \<Rightarrow> bool" where
  "stop_shown v \<longleftrightarrow> StopButton \<in> set (buttons v)"

subsection \<open>Lemmas\<close>

lemma start_enabled_view [simp]:
  "start_enabled m (dashboard_view ac d) \<longleftrightarrow> \<not> running d \<and> ac \<noteq> []"
  by (cases m) (auto simp: start_enabled_def buttons_def dashboard_view_def card_button_def)

lemma stop_shown_view [simp]: "stop_shown (dashboard_view ac d) \<longleftrightarrow> running d"
  by (simp add: stop_shown_def buttons_def dashboard_view_def card_button_def)

lemma progressBar_view [simp]:
  "progressBar (dashboard_view ac d) = (if running d then Some (progress d) else None)"
  by (simp add: dashboard_view_def)


subsection \<open>The rendered controls are well formed\<close>

text \<open>C19. Whatever the state, the view is consistent: both cards show the same kind of
  button; the stop button is shown exactly when no start button is; the status line and the
  progress bar are shown exactly with the stop button; the placeholder appears exactly when
  there is no log line; and a start button is enabled exactly when there is no stop button
  and a configuration is selected.\<close>

theorem dashboard_view_wellformed:
  "(autoButton (dashboard_view ac d) = StopButton \<longleftrightarrow> manualButton (dashboard_view ac d) = StopButton)
   \<and> (stop_shown (dashboard_view ac d) \<longleftrightarrow>
        (\<forall>m b. StartButton m b \<notin> set (buttons (dashboard_view ac d))))
   \<and> (progressBar (dashboard_view ac d) \<noteq> None \<longleftrightarrow> stop_shown (dashboard_view ac d))
   \<and> (statusShown (dashboard_view ac d) \<noteq> None \<longleftrightarrow> stop_shown (dashboard_view ac d))
   \<and> (placeholder (dashboard_view ac d) \<longleftrightarrow> logLines (dashboard_view ac d) = [])
   \<and> (start_enabled m (dashboard_view ac d) \<longleftrightarrow> \<not> stop_shown (dashboard_view ac d) \<and> ac \<noteq> [])"
  by (cases m) (auto simp: dashboard_view_def buttons_def card_button_def stop_shown_def start_enabled_def)

end
