(* ===== verification/TaskController.thy ===== *)
theory TaskController
  imports DashboardView
begin

text \<open>
  The task controller of \<open>src/frontend/src/components/Dashboard.tsx\<close> and the
  App shell around it (\<open>src/frontend/src/App.tsx\<close>).

  \<open>handleStart\<close> (lines 54--69) is an async function. Everything before its
  \<open>await\<close> runs at once when the button is clicked: \<open>handleStart\<close> below returns the
  new Dashboard state and the backend commands it issued. The rest (the \<open>catch\<close>
  and \<open>finally\<close> blocks) runs when the backend's promise settles, possibly after
  any number of channel messages: \<open>handleStart_settle\<close>. \<open>handleStop\<close>
  (lines 71--78) only sends \<open>StopSpeedTest\<close>; its failure is logged to the console.

  The system \<open>sys\<close> joins the App's state (\<open>activeTab\<close>, \<open>activeConfig\<close>,
  App.tsx lines 8--9), the state of the mounted Dashboard instance (\<open>None\<close> when
  the editor tab is shown: App.tsx line 21 renders the Dashboard only on the
  dashboard tab), the Wails runtime's listener table \<open>subs\<close> (one entry per
  registered channel handler, tagged with the Dashboard instance that registered
  it), the promises of \<open>StartSpeedTest\<close> that have not settled (tagged with the
  instance whose \<open>handleStart\<close> awaits them) and the history of backend commands.
  Each mount creates a fresh instance number \<open>inst\<close>. A settlement or a message
  that reaches a handler of an unmounted instance updates discarded React state:
  it has no visible effect, which is how \<open>settle\<close> and \<open>emit\<close> treat it.

  \<open>sys_step\<close> is the step relation of the whole front end: a click on a start
  button that the rendered Dashboard (\<open>dashboard_view\<close>, DashboardView) offers enabled,
  a click on a stop button it shows, a channel message from the backend, the settlement of
  a pending start, a tab switch (Sidebar.tsx lines 92--115) and the selection of a
  configuration. \<open>settle_oldest\<close> is the backend settling the oldest pending start;
  repeating it shows that every run can end.
\<close>

datatype outcome = Resolved | Rejected string

datatype command = StartSpeedTest string mode | StopSpeedTest

subsection \<open>The Dashboard's handlers\<close>

definition handleStart :: "string \<Rightarrow> mode \<Rightarrow> dash \<Rightarrow> dash \<times> command list" where
  "handleStart activeConfig m d =
     (if activeConfig = [] then (d, [])
      else (d\<lparr>running := True, logs := [], progress := 0, statusAction := status_init\<rparr>,
            [StartSpeedTest activeConfig m]))"

definition handleStart_settle :: "outcome \<Rightarrow> dash \<Rightarrow> dash" where
  "handleStart_settle r d =
     (let d' = (case r of Resolved \<Rightarrow> d
                | Rejected e \<Rightarrow> d\<lparr>logs := logs d @ [tag_fatal @ e]\<rparr>)
      in d'\<lparr>running := False, statusAction := status_finished, progress := 100\<rparr>)"

definition handleStop :: "dash \<Rightarrow> dash \<times> command list" where
  "handleStop d = (d, [StopSpeedTest])"

subsection \<open>Subscriptions\<close>

definition subscribe :: "nat \<Rightarrow> (nat \<times> channel) list" where
  "subscribe i = [(i, ChLog), (i, ChStatus), (i, ChProgress), (i, ChError)]"

definition unsubscribe :: "nat \<Rightarrow> (nat \<times> channel) list \<Rightarrow> (nat \<times> channel) list" where
  "unsubscribe i ss =
     remove1 (i, ChError) (remove1 (i, ChProgress) (remove1 (i, ChStatus) (remove1 (i, ChLog) ss)))"

subsection \<open>The front end as a system\<close>

datatype tab = TabDashboard | TabEditor

record sys =
  activeTab :: tab
  activeConfig :: string
  inst :: nat
  dashSt :: "dash option"
  subs :: "(nat \<times> channel) list"
  pending :: "nat list"
  sent :: "command list"

definition sys_init :: sys where
  "sys_init =
     \<lparr>activeTab = TabDashboard, activeConfig = [], inst = 0, dashSt = Some dash_init,
      subs = subscribe 0, pending = [], sent = []\<rparr>"

definition startRun :: "mode \<Rightarrow> sys \<Rightarrow> sys" where
  "startRun m s =
     (case dashSt s of None \<Rightarrow> s
      | Some d \<Rightarrow> (let (d', cmds) = handleStart (activeConfig s) m d
                   in s\<lparr>dashSt := Some d', pending := pending s @ map (\<lambda>_. inst s) cmds,
                        sent := sent s @ cmds\<rparr>))"

definition stopRun :: "sys \<Rightarrow> sys" where
  "stopRun s =
     (case dashSt s of None \<Rightarrow> s
      | Some d \<Rightarrow> (let (d', cmds) = handleStop d in s\<lparr>dashSt := Some d', sent := sent s @ cmds\<rparr>))"

definition emit :: "event \<Rightarrow> sys \<Rightarrow> sys" where
  "emit ev s =
     s\<lparr>dashSt := map_option ((\<lambda>d. dispatch d ev) ^^ count_list (subs s) (inst s, channel_of ev))
                  (dashSt s)\<rparr>"

definition settle :: "nat \<Rightarrow> outcome \<Rightarrow> sys \<Rightarrow> sys" where
  "settle i r s =
     s\<lparr>pending := remove1 i (pending s),
       dashSt := (if i = inst s then map_option (handleStart_settle r) (dashSt s) else dashSt s)\<rparr>"

definition setTab :: "tab \<Rightarrow> sys \<Rightarrow> sys" where
  "setTab t s =
     (if activeTab s = TabDashboard \<and> t \<noteq> TabDashboard then
        s\<lparr>activeTab := t, dashSt := None, subs := unsubscribe (inst s) (subs s)\<rparr>
      else if activeTab s \<noteq> TabDashboard \<and> t = TabDashboard then
        s\<lparr>activeTab := t, inst := Suc (inst s), dashSt := Some dash_init,
          subs := subs s @ subscribe (Suc (inst s))\<rparr>
      else s\<lparr>activeTab := t\<rparr>)"

definition selectConfig :: "string \<Rightarrow> sys \<Rightarrow> sys" where
  "selectConfig c s = s\<lparr>activeConfig := c\<rparr>"

inductive sys_step :: "sys \<Rightarrow> sys \<Rightarrow> bool" where
  click_start: "dashSt s = Some d \<Longrightarrow> start_enabled m (dashboard_view (activeConfig s) d) \<Longrightarrow>
     sys_step s (startRun m s)"
| click_stop: "dashSt s = Some d \<Longrightarrow> stop_shown (dashboard_view (activeConfig s) d) \<Longrightarrow>
     sys_step s (stopRun s)"
| message: "sys_step s (emit ev s)"
| settlement: "i \<in> set (pending s) \<Longrightarrow> sys_step s (settle i r s)"
| switch_tab: "sys_step s (setTab t s)"
| select_config: "sys_step s (selectConfig c s)"

inductive reachable :: "sys \<Rightarrow> bool" where
  init: "reachable sys_init"
| step: "reachable s \<Longrightarrow> sys_step s s' \<Longrightarrow> reachable s'"

subsection \<open>Invariant and scenarios\<close>

text \<open>The invariant of the front end: the Dashboard is mounted exactly on the dashboard
  tab; the listener table holds exactly the four handlers of the mounted instance; every
  pending start belongs to an instance created so far; the mounted instance has a
  pending start exactly when it shows \<open>running\<close>, and its log holds at most 100 lines
  while running and at most 101 otherwise.\<close>

definition sys_inv :: "sys \<Rightarrow> bool" where
  "sys_inv s \<longleftrightarrow>
     (dashSt s = None \<longleftrightarrow> activeTab s \<noteq> TabDashboard) \<and>
     subs s = (if dashSt s = None then [] else subscribe (inst s)) \<and>
     list_all (\<lambda>i. i \<le> inst s) (pending s) \<and>
     (case dashSt s of None \<Rightarrow> True
      | Some d \<Rightarrow> count_list (pending s) (inst s) = (if running d then 1 else 0)
                 \<and> length (logs d) \<le> (if running d then 100 else 101))"

fun is_start :: "command \<Rightarrow> bool" where
  "is_start (StartSpeedTest _ _) = True"
| "is_start StopSpeedTest = False"

definition emits :: "event list \<Rightarrow> sys \<Rightarrow> sys" where
  "emits evs s = foldl (\<lambda>s ev. emit ev s) s evs"

text \<open>The backend settling the oldest pending start: used to show that the environment can
  always bring the front end back to rest.\<close>

definition settle_oldest :: "outcome \<Rightarrow> sys \<Rightarrow> sys" where
  "settle_oldest r s = settle (hd (pending s)) r s"

definition settle_all :: "sys \<Rightarrow> sys" where
  "settle_all s = (settle_oldest Resolved ^^ length (pending s)) s"

text \<open>Scenarios used by the witnesses: a run started on config \<open>a.yaml\<close>; the user
  then switches to the editor tab and back and starts again; and a run that receives 100
  log lines and then fails.\<close>

definition s_run :: sys where
  "s_run = startRun Auto (selectConfig ''a.yaml'' sys_init)"

definition s_remount :: sys where
  "s_remount = startRun Auto (setTab TabDashboard (setTab TabEditor s_run))"

definition s_overflow :: sys where
  "s_overflow = settle 0 (Rejected ''boom'') (emits (replicate 100 (EvLog ''x'')) s_run)"

subsection \<open>Lemmas on the handlers and the system operations\<close>

lemma click_startI:
  "dashSt s = Some d \<Longrightarrow> \<not> running d \<Longrightarrow> activeConfig s \<noteq> [] \<Longrightarrow> sys_step s (startRun m s)"
  by (rule sys_step.click_start) simp_all

lemma click_stopI: "dashSt s = Some d \<Longrightarrow> running d \<Longrightarrow> sys_step s (stopRun s)"
  by (rule sys_step.click_stop) simp_all

lemma count_subscribe [simp]: "count_list (subscribe i) (i, ch) = 1"
  by (cases ch) (simp_all add: subscribe_def)

lemma count_subscribe_le: "count_list (subscribe j) x \<le> 1"
  by (cases x) (auto simp: subscribe_def)

lemma count_subscribe_other [simp]: "i \<noteq> j \<Longrightarrow> count_list (subscribe j) (i, ch) = 0"
  by (simp add: subscribe_def)

lemma unsubscribe_subscribe [simp]: "unsubscribe i (subscribe i) = []"
  by (simp add: subscribe_def unsubscribe_def)

lemma emit_mounted:
  "subs s = subscribe (inst s) \<Longrightarrow>
   emit ev s = s\<lparr>dashSt := map_option (\<lambda>d. dispatch d ev) (dashSt s)\<rparr>"
  by (simp add: emit_def)

lemma emit_unmounted: "subs s = [] \<Longrightarrow> emit ev s = s"
  by (simp add: emit_def option.map_id)

lemma emit_frame [simp]:
  "subs (emit ev s) = subs s" "inst (emit ev s) = inst s" "pending (emit ev s) = pending s"
  "sent (emit ev s) = sent s" "activeTab (emit ev s) = activeTab s"
  by (simp_all add: emit_def)

lemma emits_mounted:
  "subs s = subscribe (inst s) \<Longrightarrow>
   emits evs s = s\<lparr>dashSt := map_option (\<lambda>d. deliver d evs) (dashSt s)\<rparr>"
proof (induction evs arbitrary: s)
  case Nil
  then show ?case by (simp add: emits_def option.map_ident)
next
  case (Cons ev evs)
  have "emits (ev # evs) s = emits evs (emit ev s)" by (simp add: emits_def)
  also have "\<dots> = (emit ev s)\<lparr>dashSt := map_option (\<lambda>d. deliver d evs) (dashSt (emit ev s))\<rparr>"
    using Cons by simp
  finally show ?case using Cons.prems by (simp add: emit_mounted option.map_comp comp_def)
qed

lemma reachable_emits: "reachable s \<Longrightarrow> reachable (emits evs s)"
proof (induction evs arbitrary: s)
  case Nil
  then show ?case by (simp add: emits_def)
next
  case (Cons ev evs)
  then have "reachable (emit ev s)" by (blast intro: reachable.step sys_step.message)
  then show ?case using Cons.IH by (simp add: emits_def)
qed

subsection \<open>The invariant holds in every reachable state\<close>

lemma sys_inv_init: "sys_inv sys_init"
  by (simp add: sys_inv_def sys_init_def dash_init_def)

lemma startRun_inv:
  assumes "sys_inv s" and "dashSt s = Some d" and "\<not> running d"
  shows "sys_inv (startRun m s)"
  using assms by (auto simp: sys_inv_def startRun_def handleStart_def)

lemma stopRun_inv: "sys_inv s \<Longrightarrow> sys_inv (stopRun s)"
  by (auto simp: sys_inv_def stopRun_def handleStop_def split: option.splits)

lemma emit_inv: "sys_inv s \<Longrightarrow> sys_inv (emit ev s)"
proof (cases "dashSt s")
  case None
  moreover assume "sys_inv s"
  ultimately show ?thesis by (simp add: sys_inv_def emit_unmounted)
next
  case (Some d)
  moreover assume inv: "sys_inv s"
  ultimately have subs: "subs s = subscribe (inst s)" by (simp add: sys_inv_def)
  have "length (logs (dispatch d ev)) \<le> max 100 (length (logs d))"
    by (rule length_logs_dispatch)
  with inv Some subs show ?thesis by (auto simp: sys_inv_def emit_mounted)
qed

lemma settle_inv:
  assumes "sys_inv s" and "i \<in> set (pending s)"
  shows "sys_inv (settle i r s)"
proof (cases "dashSt s")
  case None
  with assms show ?thesis
    by (auto simp: sys_inv_def settle_def list_all_iff dest: set_remove1_subset [THEN subsetD])
next
  case (Some d)
  show ?thesis
  proof (cases "i = inst s")
    case True
    with assms Some have "running d"
      by (auto simp: sys_inv_def count_list_0_iff split: if_splits)
    with assms Some True show ?thesis
      by (auto simp: sys_inv_def settle_def handleStart_settle_def list_all_iff
               split: outcome.splits dest: set_remove1_subset [THEN subsetD])
  next
    case False
    with assms Some show ?thesis
      by (auto simp: sys_inv_def settle_def list_all_iff dest: set_remove1_subset [THEN subsetD])
  qed
qed

lemma setTab_inv: "sys_inv s \<Longrightarrow> sys_inv (setTab t s)"
proof -
  assume inv: "sys_inv s"
  then have le: "list_all (\<lambda>i. i \<le> inst s) (pending s)" by (simp add: sys_inv_def)
  then have "count_list (pending s) (Suc (inst s)) = 0"
    by (auto simp: count_list_0_iff list_all_iff)
  with inv le show ?thesis
    by (auto simp: sys_inv_def setTab_def dash_init_def list_all_iff split: option.splits)
qed

lemma selectConfig_inv: "sys_inv s \<Longrightarrow> sys_inv (selectConfig c s)"
  unfolding sys_inv_def selectConfig_def by (auto split: option.splits if_splits)

lemma sys_step_inv: "sys_step s s' \<Longrightarrow> sys_inv s \<Longrightarrow> sys_inv s'"
proof (induction rule: sys_step.induct)
  case (click_start s d m)
  then show ?case by (simp add: startRun_inv)
next
  case (click_stop s d)
  then show ?case by (simp add: stopRun_inv)
next
  case (message s ev)
  then show ?case by (rule emit_inv)
next
  case (settlement i s r)
  then show ?case by (simp add: settle_inv)
next
  case (switch_tab s t)
  then show ?case by (rule setTab_inv)
next
  case (select_config s c)
  then show ?case by (rule selectConfig_inv)
qed

lemma reachable_sys_inv: "reachable s \<Longrightarrow> sys_inv s"
proof (induction rule: reachable.induct)
  case init
  show ?case by (rule sys_inv_init)
next
  case (step s s')
  then show ?case by (blast intro: sys_step_inv)
qed

lemma reachable_running_pending:
  assumes "reachable s" and "dashSt s = Some d" and "running d"
  shows "inst s \<in> set (pending s)"
proof -
  from assms have "count_list (pending s) (inst s) = 1"
    by (auto simp: sys_inv_def dest!: reachable_sys_inv)
  then show ?thesis by (metis count_notin zero_neq_one)
qed

lemma reachable_steps: "sys_step\<^sup>*\<^sup>* s s' \<Longrightarrow> reachable s \<Longrightarrow> reachable s'"
  by (induction rule: rtranclp_induct) (auto intro: reachable.step)

lemma settle_oldest_frame:
  "activeTab ((settle_oldest r ^^ n) s) = activeTab s
   \<and> activeConfig ((settle_oldest r ^^ n) s) = activeConfig s
   \<and> (dashSt ((settle_oldest r ^^ n) s) = None \<longleftrightarrow> dashSt s = None)"
  by (induction n) (simp_all add: settle_oldest_def settle_def)

lemma settle_oldest_run:
  "sys_step\<^sup>*\<^sup>* s ((settle_oldest r ^^ length (pending s)) s)
   \<and> pending ((settle_oldest r ^^ length (pending s)) s) = []"
proof (induction "length (pending s)" arbitrary: s)
  case 0
  then show ?case by simp
next
  case (Suc n)
  then obtain i js where p: "pending s = i # js" by (cases "pending s") auto
  have st: "sys_step s (settle_oldest r s)"
    unfolding settle_oldest_def using p by (auto intro: sys_step.settlement)
  have pp: "pending (settle_oldest r s) = js" using p by (simp add: settle_oldest_def settle_def)
  have "n = length (pending (settle_oldest r s))" using Suc.hyps(2) p pp by simp
  note IH = Suc.hyps(1) [OF this]
  have eq: "(settle_oldest r ^^ length (pending s)) s
            = (settle_oldest r ^^ length (pending (settle_oldest r s))) (settle_oldest r s)"
    using p pp by (simp del: funpow.simps add: funpow_Suc_right)
  show ?case using IH st unfolding eq by (blast intro: converse_rtranclp_into_rtranclp)
qed

lemma reachable_s_run: "reachable s_run"
proof -
  have r0: "reachable (selectConfig ''a.yaml'' sys_init)"
    by (rule reachable.step [OF reachable.init sys_step.select_config])
  have "sys_step (selectConfig ''a.yaml'' sys_init) s_run"
    unfolding s_run_def
    by (rule click_startI [where d = dash_init])
       (simp_all add: selectConfig_def sys_init_def dash_init_def)
  with r0 show ?thesis by (rule reachable.step)
qed

lemma dashSt_s_run:
  "dashSt s_run = Some (dash_init\<lparr>running := True, logs := [], progress := 0, statusAction := status_init\<rparr>)"
  by (simp add: s_run_def startRun_def selectConfig_def sys_init_def handleStart_def dash_init_def)

lemma s_run_fields:
  "inst s_run = 0" "subs s_run = subscribe 0" "pending s_run = [0]" "activeTab s_run = TabDashboard"
  "sent s_run = [StartSpeedTest ''a.yaml'' Auto]" "activeConfig s_run = ''a.yaml''"
  by (simp_all add: s_run_def startRun_def selectConfig_def sys_init_def handleStart_def)

subsection \<open>Properties of the task controller\<close>

text \<open>C1. A click on a start button of a mounted, idle Dashboard with a selected
  configuration is a step of the front end; it resets the run state to running, 0 percent,
  status "initialising" and an empty log, sends exactly one \<open>StartSpeedTest\<close> with the
  selected configuration and the mode, and leaves one pending promise owned by the
  instance.\<close>

theorem startRun_accepts:
  assumes "dashSt s = Some d" and "\<not> running d" and "activeConfig s \<noteq> []"
  shows "sys_step s (startRun m s)
    \<and> dashSt (startRun m s)
        = Some (d\<lparr>running := True, logs := [], progress := 0, statusAction := status_init\<rparr>)
    \<and> sent (startRun m s) = sent s @ [StartSpeedTest (activeConfig s) m]
    \<and> pending (startRun m s) = pending s @ [inst s]"
proof -
  have "sys_step s (startRun m s)" using assms by (rule click_startI)
  with assms show ?thesis by (simp add: startRun_def handleStart_def)
qed

theorem startRun_accepts_witness:
  "dashSt (selectConfig ''a.yaml'' sys_init) = Some dash_init \<and> \<not> running dash_init
   \<and> activeConfig (selectConfig ''a.yaml'' sys_init) \<noteq> []
   \<and> sent (startRun Manual (selectConfig ''a.yaml'' sys_init)) = [StartSpeedTest ''a.yaml'' Manual]"
proof -
  have d: "dashSt (selectConfig ''a.yaml'' sys_init) = Some dash_init"
    by (simp add: selectConfig_def sys_init_def)
  have r: "\<not> running dash_init" by (simp add: dash_init_def)
  have c: "activeConfig (selectConfig ''a.yaml'' sys_init) \<noteq> []" by (simp add: selectConfig_def)
  show ?thesis using startRun_accepts [OF d r c, of Manual] d r c
    by (simp add: selectConfig_def sys_init_def)
qed

text \<open>C2. With no configuration selected, \<open>handleStart\<close> returns at once: the state
  is unchanged and no command is sent.\<close>

theorem startRun_no_config: "activeConfig s = [] \<Longrightarrow> startRun m s = s"
  by (simp add: startRun_def handleStart_def split: option.splits)

theorem startRun_no_config_witness: "activeConfig sys_init = [] \<and> startRun Auto sys_init = sys_init"
  using startRun_no_config [of sys_init Auto] by (simp add: sys_init_def)

text \<open>C3. Settlement of the start promise, whatever its outcome, leaves the Dashboard
  terminal: not running, 100 percent, status "finished / stopped". A rejection appends
  one fatal-tagged line with the error text to the log (without the 100-line window); a
  resolution leaves the log as it was.\<close>

theorem handleStart_settle_terminal:
  "\<not> running (handleStart_settle r d) \<and> progress (handleStart_settle r d) = 100
   \<and> statusAction (handleStart_settle r d) = status_finished
   \<and> logs (handleStart_settle r d)
       = logs d @ (case r of Resolved \<Rightarrow> [] | Rejected e \<Rightarrow> [tag_fatal @ e])"
  by (cases r) (simp_all add: handleStart_settle_def)

text \<open>C4. Stop, then failure: in a reachable state with a running Dashboard, a stop
  click is a step, the backend may then reject the start promise, and the result is not
  running, at 100 percent, with the fatal-tagged error line last in the log.\<close>

theorem stop_then_failure_terminal:
  assumes "reachable s" and "dashSt s = Some d" and "running d"
  shows "sys_step s (stopRun s)
    \<and> sys_step (stopRun s) (settle (inst s) (Rejected e) (stopRun s))
    \<and> (\<exists>d'. dashSt (settle (inst s) (Rejected e) (stopRun s)) = Some d'
          \<and> \<not> running d' \<and> progress d' = 100 \<and> last (logs d') = tag_fatal @ e)"
proof -
  have p: "inst s \<in> set (pending s)" using assms by (rule reachable_running_pending)
  have stop: "stopRun s = s\<lparr>sent := sent s @ [StopSpeedTest]\<rparr>"
    using assms(2) by (simp add: stopRun_def handleStop_def)
  have "sys_step s (stopRun s)" using assms(2,3) by (rule click_stopI)
  moreover have "sys_step (stopRun s) (settle (inst s) (Rejected e) (stopRun s))"
    by (rule sys_step.settlement) (simp add: stop p)
  moreover have "dashSt (settle (inst s) (Rejected e) (stopRun s))
      = Some (handleStart_settle (Rejected e) d)"
    using assms(2) by (simp add: stop settle_def)
  ultimately show ?thesis by (simp add: handleStart_settle_def)
qed

theorem stop_then_failure_terminal_witness:
  "reachable s_run
   \<and> dashSt s_run = Some (dash_init\<lparr>running := True, logs := [], progress := 0, statusAction := status_init\<rparr>)
   \<and> (\<exists>d'. dashSt (settle (inst s_run) (Rejected ''e'') (stopRun s_run)) = Some d'
          \<and> \<not> running d' \<and> progress d' = 100 \<and> last (logs d') = tag_fatal @ ''e'')"
  using stop_then_failure_terminal [OF reachable_s_run dashSt_s_run, of "''e''"]
    reachable_s_run dashSt_s_run by simp

text \<open>C5. In every reachable state, the mounted Dashboard instance has at most one
  pending start, and it shows \<open>running\<close> exactly when it has one: the start promise
  settles once, and its settlement is what ends the run.\<close>

theorem one_pending_start_per_instance:
  assumes "reachable s" and "dashSt s = Some d"
  shows "count_list (pending s) (inst s) \<le> 1 \<and> (running d \<longleftrightarrow> inst s \<in> set (pending s))"
proof -
  have "sys_inv s" using assms(1) by (rule reachable_sys_inv)
  with assms(2) have c: "count_list (pending s) (inst s) = (if running d then 1 else 0)"
    by (simp add: sys_inv_def)
  have "inst s \<in> set (pending s) \<longleftrightarrow> count_list (pending s) (inst s) \<noteq> 0"
    by (simp add: count_list_0_iff)
  with c show ?thesis by simp
qed

theorem one_pending_start_per_instance_witness:
  "reachable s_run
   \<and> count_list (pending s_run) (inst s_run) \<le> 1
   \<and> (running (dash_init\<lparr>running := True, logs := [], progress := 0, statusAction := status_init\<rparr>)
      \<longleftrightarrow> inst s_run \<in> set (pending s_run))"
  using one_pending_start_per_instance [OF reachable_s_run dashSt_s_run] reachable_s_run by simp

text \<open>C6. While a mounted Dashboard is running, no step of the front end sends another
  \<open>StartSpeedTest\<close>: the start buttons are not rendered, so a second start cannot be
  issued from this instance.\<close>

theorem no_second_start_while_running:
  assumes "reachable s" and "dashSt s = Some d" and "running d" and "sys_step s s'"
  shows "filter is_start (sent s') = filter is_start (sent s)"
  using assms(4)
proof cases
  case (click_start d' m)
  with assms(2,3) show ?thesis by simp
next
  case click_stop
  then show ?thesis by (auto simp: stopRun_def handleStop_def split: option.splits)
next
  case (message ev)
  then show ?thesis by simp
next
  case (settlement i r)
  then show ?thesis by (simp add: settle_def)
next
  case (switch_tab t)
  then show ?thesis by (simp add: setTab_def)
next
  case (select_config c)
  then show ?thesis by (simp add: selectConfig_def)
qed

theorem no_second_start_while_running_witness:
  "reachable s_run
   \<and> running (dash_init\<lparr>running := True, logs := [], progress := 0, statusAction := status_init\<rparr>)
   \<and> sys_step s_run (emit (EvLog ''x'') s_run)
   \<and> filter is_start (sent (emit (EvLog ''x'') s_run)) = filter is_start (sent s_run)"
proof -
  have st: "sys_step s_run (emit (EvLog ''x'') s_run)" by (rule sys_step.message)
  show ?thesis
    using no_second_start_while_running [OF reachable_s_run dashSt_s_run _ st] reachable_s_run st
    by simp
qed

text \<open>C7. The guard against a second start lives in the mounted instance only. Switching
  to the editor tab and back while a run is pending mounts a fresh Dashboard that is not
  running: it shows no stop button for the pending run and offers an enabled start button,
  which sends a second \<open>StartSpeedTest\<close> while the first is still pending: two unsettled
  starts are reachable.\<close>

theorem remount_second_start:
  "pending (setTab TabDashboard (setTab TabEditor s_run)) = [0]
   \<and> (\<exists>d. dashSt (setTab TabDashboard (setTab TabEditor s_run)) = Some d
        \<and> \<not> stop_shown (dashboard_view (activeConfig (setTab TabDashboard (setTab TabEditor s_run))) d)
        \<and> start_enabled Auto (dashboard_view (activeConfig (setTab TabDashboard (setTab TabEditor s_run))) d))
   \<and> reachable s_remount \<and> pending s_remount = [0, 1]
   \<and> filter is_start (sent s_remount) = [StartSpeedTest ''a.yaml'' Auto, StartSpeedTest ''a.yaml'' Auto]"
proof -
  let ?s1 = "setTab TabEditor s_run"
  let ?s2 = "setTab TabDashboard ?s1"
  have r2: "reachable ?s2"
    using reachable_s_run by (blast intro: reachable.step sys_step.switch_tab)
  have d2: "dashSt ?s2 = Some dash_init" and c2: "activeConfig ?s2 = ''a.yaml''"
    and p2: "pending ?s2 = [0]"
    by (simp_all add: setTab_def s_run_fields)
  have v2: "\<not> stop_shown (dashboard_view (activeConfig ?s2) dash_init)
            \<and> start_enabled Auto (dashboard_view (activeConfig ?s2) dash_init)"
    by (simp add: c2 dash_init_def)
  have "sys_step ?s2 s_remount"
    unfolding s_remount_def
    by (rule click_startI [OF d2]) (simp_all add: c2 dash_init_def)
  with r2 have "reachable s_remount" by (rule reachable.step)
  moreover have "pending s_remount = [0, 1]" and
    "filter is_start (sent s_remount) = [StartSpeedTest ''a.yaml'' Auto, StartSpeedTest ''a.yaml'' Auto]"
    by (simp_all add: s_remount_def startRun_def d2 c2 handleStart_def setTab_def s_run_fields)
  ultimately show ?thesis using d2 p2 v2 by blast
qed

text \<open>C8. Subscriptions are scoped to the mounted instance: in every reachable state each
  (instance, channel) pair is registered at most once, so no message is delivered twice,
  and no listener of an earlier, unmounted Dashboard instance is left registered.\<close>

theorem subscriptions_single:
  assumes "reachable s"
  shows "count_list (subs s) (i, ch) \<le> 1 \<and> (i \<noteq> inst s \<longrightarrow> count_list (subs s) (i, ch) = 0)"
  using reachable_sys_inv [OF assms] count_subscribe_le [of "inst s" "(i, ch)"]
  by (simp add: sys_inv_def)

theorem subscriptions_single_witness:
  "reachable (setTab TabDashboard (setTab TabEditor s_run))
   \<and> count_list (subs (setTab TabDashboard (setTab TabEditor s_run))) (1, ChLog) \<le> 1
   \<and> (0::nat) \<noteq> inst (setTab TabDashboard (setTab TabEditor s_run))
   \<and> count_list (subs (setTab TabDashboard (setTab TabEditor s_run))) (0, ChLog) = 0"
proof -
  let ?s = "setTab TabDashboard (setTab TabEditor s_run)"
  have r: "reachable ?s"
    using reachable_s_run by (blast intro: reachable.step sys_step.switch_tab)
  have i: "inst ?s = 1" by (simp add: setTab_def s_run_fields)
  show ?thesis
    using subscriptions_single [OF r, of 1 ChLog] subscriptions_single [OF r, of 0 ChLog] r i
    by simp
qed

text \<open>C9. Teardown releases the subscriptions, it does not merely ignore them: once the
  Dashboard is unmounted no listener is registered, and a message the backend emits then
  changes nothing.\<close>

theorem teardown_no_effect:
  assumes "reachable s" and "dashSt s = None"
  shows "subs s = [] \<and> emit ev s = s"
proof -
  have "subs s = []" using reachable_sys_inv [OF assms(1)] assms(2) by (simp add: sys_inv_def)
  then show ?thesis by (simp add: emit_unmounted)
qed

theorem teardown_no_effect_witness:
  "reachable (setTab TabEditor s_run) \<and> dashSt (setTab TabEditor s_run) = None
   \<and> subs (setTab TabEditor s_run) = []
   \<and> emit (EvStatus ''late'') (setTab TabEditor s_run) = setTab TabEditor s_run"
proof -
  have r: "reachable (setTab TabEditor s_run)"
    using reachable_s_run by (blast intro: reachable.step sys_step.switch_tab)
  have n: "dashSt (setTab TabEditor s_run) = None" by (simp add: setTab_def s_run_fields)
  show ?thesis using teardown_no_effect [OF r n] r n by simp
qed

text \<open>C13. In every reachable state the mounted Dashboard's log holds at most 101 lines,
  and at most 100 while running.\<close>

theorem reachable_logs_bound:
  assumes "reachable s" and "dashSt s = Some d"
  shows "length (logs d) \<le> 101 \<and> (running d \<longrightarrow> length (logs d) \<le> 100)"
  using reachable_sys_inv [OF assms(1)] assms(2) by (auto simp: sys_inv_def split: if_splits)

theorem reachable_logs_bound_witness:
  "reachable s_run \<and> length (logs (dash_init\<lparr>running := True, logs := [], progress := 0,
     statusAction := status_init\<rparr>)) \<le> 101"
  using reachable_logs_bound [OF reachable_s_run dashSt_s_run] reachable_s_run by simp

text \<open>C14. The bound 100 is not an invariant: the fatal line of a rejected start is
  appended without the 100-line window, so a run that received 100 log lines and then
  fails leaves 101 lines in a reachable state.\<close>

theorem fatal_overflows_log:
  "reachable s_overflow \<and> (\<exists>d. dashSt s_overflow = Some d \<and> length (logs d) = 101)"
proof -
  let ?s = "emits (replicate 100 (EvLog ''x'')) s_run"
  have r: "reachable ?s" using reachable_s_run by (rule reachable_emits)
  have p: "0 \<in> set (pending ?s)" by (simp add: emits_mounted s_run_fields)
  have "reachable s_overflow"
    unfolding s_overflow_def using r by (rule reachable.step) (rule sys_step.settlement [OF p])
  moreover have "length (logs (deliver (dash_init\<lparr>running := True, logs := [], progress := 0,
      statusAction := status_init\<rparr>) (replicate 100 (EvLog ''x'')))) = 100"
    using logs_deliver_replicate [where d = "dash_init\<lparr>running := True, logs := [], progress := 0,
      statusAction := status_init\<rparr>" and h = "[]" and n = 100 and m = "''x''"] by simp
  ultimately show ?thesis
    by (simp add: s_overflow_def settle_def emits_mounted s_run_fields dashSt_s_run
        handleStart_settle_def)
qed

text \<open>C22. The terminal state is left only by a new start: a step from a mounted,
  idle Dashboard to a mounted, running one is a start click.\<close>

theorem only_start_reenters_running:
  assumes "sys_step s s'" and "dashSt s = Some d" and "\<not> running d"
    and "dashSt s' = Some d'" and "running d'"
  shows "\<exists>m. s' = startRun m s"
  using assms(1)
proof cases
  case (click_start d0 m)
  then show ?thesis by blast
next
  case (click_stop d0)
  with assms(2,3) show ?thesis by simp
next
  case (message ev)
  with assms(2-5) show ?thesis by (auto simp: emit_def)
next
  case (settlement i r)
  with assms(2-5) show ?thesis
    by (auto simp: settle_def handleStart_settle_def split: if_splits outcome.splits)
next
  case (switch_tab t)
  with assms(2-5) show ?thesis
    by (auto simp: setTab_def dash_init_def split: if_splits)
next
  case (select_config c)
  with assms(2-5) show ?thesis by (simp add: selectConfig_def)
qed

theorem only_start_reenters_running_witness:
  "sys_step (selectConfig ''a.yaml'' sys_init) s_run \<and> \<not> running dash_init
   \<and> (\<exists>m. s_run = startRun m (selectConfig ''a.yaml'' sys_init))"
proof -
  have st: "sys_step (selectConfig ''a.yaml'' sys_init) s_run"
    unfolding s_run_def
    by (rule click_startI [where d = dash_init])
       (simp_all add: selectConfig_def sys_init_def dash_init_def)
  have d: "dashSt (selectConfig ''a.yaml'' sys_init) = Some dash_init"
    by (simp add: selectConfig_def sys_init_def)
  have r: "\<not> running dash_init" by (simp add: dash_init_def)
  show ?thesis
    using only_start_reenters_running [OF st d r dashSt_s_run] st r by simp
qed


text \<open>C11. Every run can end, without leaving the Dashboard: from every reachable state,
  the run \<open>settle_all\<close> in which the backend settles the pending starts one by one
  (oldest first) is a run of the front end. It leaves the tab and the selection as they
  were, and after it no start is pending, and a Dashboard that was mounted is still
  mounted, shows no stop button and offers its start buttons exactly when a
  configuration is selected.\<close>

theorem runs_return_to_idle:
  assumes "reachable s"
  shows "sys_step\<^sup>*\<^sup>* s (settle_all s) \<and> pending (settle_all s) = []
         \<and> activeTab (settle_all s) = activeTab s
         \<and> (dashSt s \<noteq> None \<longrightarrow>
              (\<exists>d. dashSt (settle_all s) = Some d
                   \<and> \<not> stop_shown (dashboard_view (activeConfig s) d)
                   \<and> (\<forall>m. start_enabled m (dashboard_view (activeConfig s) d) = (activeConfig s \<noteq> []))))"
proof -
  have steps: "sys_step\<^sup>*\<^sup>* s (settle_all s)" and p: "pending (settle_all s) = []"
    using settle_oldest_run [of s Resolved] by (simp_all add: settle_all_def)
  have f: "activeTab (settle_all s) = activeTab s" "activeConfig (settle_all s) = activeConfig s"
    "dashSt (settle_all s) = None \<longleftrightarrow> dashSt s = None"
    using settle_oldest_frame [where r = Resolved and n = "length (pending s)" and s = s]
    by (simp_all add: settle_all_def)
  have r: "reachable (settle_all s)" using steps assms by (rule reachable_steps)
  have "\<not> running d" if "dashSt (settle_all s) = Some d" for d
    using reachable_running_pending [OF r that] p by auto
  then show ?thesis using steps p f by fastforce
qed

theorem runs_return_to_idle_witness:
  "reachable s_run \<and> dashSt s_run \<noteq> None \<and> pending s_run = [0] \<and> activeConfig s_run = ''a.yaml''
   \<and> sys_step\<^sup>*\<^sup>* s_run (settle_all s_run) \<and> pending (settle_all s_run) = []
   \<and> (\<exists>d. dashSt (settle_all s_run) = Some d
        \<and> \<not> stop_shown (dashboard_view (activeConfig s_run) d)
        \<and> start_enabled Auto (dashboard_view (activeConfig s_run) d))"
proof -
  have m: "dashSt s_run \<noteq> None" using dashSt_s_run by simp
  have c: "activeConfig s_run = ''a.yaml''" and p: "pending s_run = [0]" by (simp_all add: s_run_fields)
  show ?thesis using runs_return_to_idle [OF reachable_s_run] reachable_s_run m c p by fastforce
qed

end
