(* ===== verification/Config.thy ===== *)
theory Config
  imports Prelude
begin

text \<open>
  The configuration editor of \<open>src/frontend/src/components/ConfigEditor.tsx\<close>.
  The record a configuration file holds is the Wails model \<open>config.Config\<close> with its
  groups \<open>Cloudflare\<close> and \<open>SpeedTest\<close> (records \<open>cloudflare_cfg\<close>,
  \<open>speedtest_cfg\<close>, \<open>config\<close>; fields keep the source's names). Numbers are
  \<open>jsnum\<close> because an edited numeric input may hold \<open>NaN\<close>; the domain lists are
  \<open>string list option\<close> because a Go \<open>nil\<close> slice arrives as \<open>null\<close> (the code
  writes \<open>Domains?.join\<close>).

  The editor's React state (lines 12--16) is the record \<open>editor\<close>. \<open>loadConfig\<close>
  (lines 24--47) is async: \<open>loadConfig_begin\<close> is its synchronous prefix and
  \<open>loadConfig_settle\<close> the continuation with the backend's result (\<open>Inr\<close> a record,
  \<open>Inl\<close> an error text); \<open>applyLoadDefaults\<close> is the block of seven \<open>if (!x) x = d\<close>
  statements (lines 30--36). \<open>handleSave\<close> (lines 49--62) is split the same way.
  \<open>handleChange\<close> (lines 64--73) writes one field, named by the datatype \<open>edit\<close>
  (the code's dynamic \<open>newCfg[section][field] = value\<close>); \<open>handleArrayChange\<close>
  (lines 75--84) splits a textarea's text on newlines.

  The form (lines 126--484) binds each field to an input: \<open>fieldValue\<close> is what the
  input shows (with the code's display fallbacks such as \<open>|| 0.2\<close> and
  \<open>|| "ip.txt"\<close>), \<open>fieldOnChange\<close> what its \<open>onChange\<close> writes (through
  \<open>parseInt\<close>, \<open>parseFloat\<close>, \<open>split\<close> or the raw text), \<open>switchOnChange\<close> the
  three checkboxes. The status texts are ASCII translations of the code's Chinese
  strings. The empty \<open>new ConfigModels.Config()\<close> shown before the first load
  completes is not modelled: the model's records always have every field.
\<close>

record cloudflare_cfg =
  APIKey :: string
  Email :: string
  ZoneID :: string
  ZoneName :: string
  Domains :: "string list option"
  DomainIPv6s :: "string list option"

record speedtest_cfg =
  Routines :: jsnum
  TCPPort :: jsnum
  PingTimes :: jsnum
  MaxDelay :: jsnum
  MinDelay :: jsnum
  MaxLossRate :: jsnum
  TestCount :: jsnum
  DownloadTime :: jsnum
  MinSpeed :: jsnum
  SpeedTestURL :: string
  TestType :: string
  IPv4File :: string
  IPv6File :: string
  Httping :: bool
  DisableDownload :: bool
  TestAllIP :: bool

record config =
  Cloudflare :: cloudflare_cfg
  SpeedTest :: speedtest_cfg

subsection \<open>Load-time defaults\<close>

definition applyLoadDefaults :: "config \<Rightarrow> config" where
  "applyLoadDefaults data =
     (let st0 = SpeedTest data;
          st1 = (if \<not> js_truthy_num (Routines st0) then st0\<lparr>Routines := Num 200\<rparr> else st0);
          st2 = (if \<not> js_truthy_num (PingTimes st1) then st1\<lparr>PingTimes := Num 4\<rparr> else st1);
          st3 = (if \<not> js_truthy_num (TestCount st2) then st2\<lparr>TestCount := Num 10\<rparr> else st2);
          st4 = (if \<not> js_truthy_num (DownloadTime st3) then st3\<lparr>DownloadTime := Num 10\<rparr> else st3);
          st5 = (if \<not> js_truthy_num (TCPPort st4) then st4\<lparr>TCPPort := Num 443\<rparr> else st4);
          st6 = (if \<not> js_truthy_num (MaxDelay st5) then st5\<lparr>MaxDelay := Num 200\<rparr> else st5);
          st7 = (if \<not> js_truthy_num (MaxLossRate st6) then st6\<lparr>MaxLossRate := Num (1/5)\<rparr> else st6)
      in data\<lparr>SpeedTest := st7\<rparr>)"

subsection \<open>The editor's state and handlers\<close>

definition st_loading :: string where "st_loading = ''Loading...''"
definition st_error :: string where "st_error = ''Error: ''"
definition st_saving :: string where "st_saving = ''Saving...''"
definition st_saved :: string where "st_saved = ''Saved!''"
definition st_save_failed :: string where "st_save_failed = ''Save failed: ''"

lemmas editor_strings = st_loading_def st_error_def st_saving_def st_saved_def st_save_failed_def

record editor =
  cfg :: config
  loading :: bool
  status :: string

datatype ecommand = LoadConfigCmd string | SaveConfigCmd string config

definition loadConfig_begin :: "string \<Rightarrow> editor \<Rightarrow> editor \<times> ecommand list" where
  "loadConfig_begin activeConfig e =
     (e\<lparr>loading := True, status := st_loading\<rparr>, [LoadConfigCmd activeConfig])"

definition loadConfig_settle :: "string + config \<Rightarrow> editor \<Rightarrow> editor" where
  "loadConfig_settle r e =
     (case r of
        Inr data \<Rightarrow> e\<lparr>cfg := applyLoadDefaults data, status := [], loading := False\<rparr>
      | Inl err \<Rightarrow> e\<lparr>status := st_error @ err, loading := False\<rparr>)"

definition handleSave_begin :: "string \<Rightarrow> editor \<Rightarrow> editor \<times> ecommand list" where
  "handleSave_begin activeConfig e =
     (e\<lparr>loading := True, status := st_saving\<rparr>, [SaveConfigCmd activeConfig (cfg e)])"

definition handleSave_settle :: "string + unit \<Rightarrow> editor \<Rightarrow> editor" where
  "handleSave_settle r e =
     (case r of
        Inr _ \<Rightarrow> e\<lparr>status := st_saved, loading := False\<rparr>
      | Inl err \<Rightarrow> e\<lparr>status := st_save_failed @ err, loading := False\<rparr>)"

definition saveStatusTimeout :: "editor \<Rightarrow> editor" where
  "saveStatusTimeout e = e\<lparr>status := []\<rparr>"

datatype edit =
    SetAPIKey string | SetEmail string | SetZoneID string | SetZoneName string
  | SetDomains "string list" | SetDomainIPv6s "string list"
  | SetRoutines jsnum | SetTCPPort jsnum | SetPingTimes jsnum | SetMaxDelay jsnum
  | SetMinDelay jsnum | SetMaxLossRate jsnum | SetTestCount jsnum | SetDownloadTime jsnum
  | SetMinSpeed jsnum | SetSpeedTestURL string | SetTestType string
  | SetIPv4File string | SetIPv6File string
  | SetHttping bool | SetDisableDownload bool | SetTestAllIP bool

fun handleChange :: "edit \<Rightarrow> config \<Rightarrow> config" where
  "handleChange (SetAPIKey v) c = c\<lparr>Cloudflare := (Cloudflare c)\<lparr>APIKey := v\<rparr>\<rparr>"
| "handleChange (SetEmail v) c = c\<lparr>Cloudflare := (Cloudflare c)\<lparr>Email := v\<rparr>\<rparr>"
| "handleChange (SetZoneID v) c = c\<lparr>Cloudflare := (Cloudflare c)\<lparr>ZoneID := v\<rparr>\<rparr>"
| "handleChange (SetZoneName v) c = c\<lparr>Cloudflare := (Cloudflare c)\<lparr>ZoneName := v\<rparr>\<rparr>"
| "handleChange (SetDomains v) c = c\<lparr>Cloudflare := (Cloudflare c)\<lparr>Domains := Some v\<rparr>\<rparr>"
| "handleChange (SetDomainIPv6s v) c = c\<lparr>Cloudflare := (Cloudflare c)\<lparr>DomainIPv6s := Some v\<rparr>\<rparr>"
| "handleChange (SetRoutines v) c = c\<lparr>SpeedTest := (SpeedTest c)\<lparr>Routines := v\<rparr>\<rparr>"
| "handleChange (SetTCPPort v) c = c\<lparr>SpeedTest := (SpeedTest c)\<lparr>TCPPort := v\<rparr>\<rparr>"
| "handleChange (SetPingTimes v) c = c\<lparr>SpeedTest := (SpeedTest c)\<lparr>PingTimes := v\<rparr>\<rparr>"
| "handleChange (SetMaxDelay v) c = c\<lparr>SpeedTest := (SpeedTest c)\<lparr>MaxDelay := v\<rparr>\<rparr>"
| "handleChange (SetMinDelay v) c = c\<lparr>SpeedTest := (SpeedTest c)\<lparr>MinDelay := v\<rparr>\<rparr>"
| "handleChange (SetMaxLossRate v) c = c\<lparr>SpeedTest := (SpeedTest c)\<lparr>MaxLossRate := v\<rparr>\<rparr>"
| "handleChange (SetTestCount v) c = c\<lparr>SpeedTest := (SpeedTest c)\<lparr>TestCount := v\<rparr>\<rparr>"
| "handleChange (SetDownloadTime v) c = c\<lparr>SpeedTest := (SpeedTest c)\<lparr>DownloadTime := v\<rparr>\<rparr>"
| "handleChange (SetMinSpeed v) c = c\<lparr>SpeedTest := (SpeedTest c)\<lparr>MinSpeed := v\<rparr>\<rparr>"
| "handleChange (SetSpeedTestURL v) c = c\<lparr>SpeedTest := (SpeedTest c)\<lparr>SpeedTestURL := v\<rparr>\<rparr>"
| "handleChange (SetTestType v) c = c\<lparr>SpeedTest := (SpeedTest c)\<lparr>TestType := v\<rparr>\<rparr>"
| "handleChange (SetIPv4File v) c = c\<lparr>SpeedTest := (SpeedTest c)\<lparr>IPv4File := v\<rparr>\<rparr>"
| "handleChange (SetIPv6File v) c = c\<lparr>SpeedTest := (SpeedTest c)\<lparr>IPv6File := v\<rparr>\<rparr>"
| "handleChange (SetHttping v) c = c\<lparr>SpeedTest := (SpeedTest c)\<lparr>Httping := v\<rparr>\<rparr>"
| "handleChange (SetDisableDownload v) c = c\<lparr>SpeedTest := (SpeedTest c)\<lparr>DisableDownload := v\<rparr>\<rparr>"
| "handleChange (SetTestAllIP v) c = c\<lparr>SpeedTest := (SpeedTest c)\<lparr>TestAllIP := v\<rparr>\<rparr>"

datatype array_field = ADomains | ADomainIPv6s

fun handleArrayChange :: "array_field \<Rightarrow> string \<Rightarrow> config \<Rightarrow> config" where
  "handleArrayChange ADomains v c = handleChange (SetDomains (split_nl v)) c"
| "handleArrayChange ADomainIPv6s v c = handleChange (SetDomainIPv6s (split_nl v)) c"

subsection \<open>The form bindings\<close>

datatype field =
    FAPIKey | FEmail | FZoneID | FZoneName | FDomains | FDomainIPv6s
  | FRoutines | FTCPPort | FPingTimes | FMaxDelay | FMinDelay | FMaxLossRate
  | FTestCount | FDownloadTime | FMinSpeed | FSpeedTestURL
  | FTestType | FIPv4File | FIPv6File

datatype switch = SwHttping | SwDisableDownload | SwTestAllIP

datatype shown = ShowStr string | ShowNum jsnum

definition js_or_num :: "jsnum \<Rightarrow> jsnum \<Rightarrow> jsnum" where
  "js_or_num x d = (if js_truthy_num x then x else d)"

definition js_or_str :: "string \<Rightarrow> string \<Rightarrow> string" where
  "js_or_str x d = (if x = [] then d else x)"

definition join_or_empty :: "string list option \<Rightarrow> string" where
  "join_or_empty v = (case v of None \<Rightarrow> [] | Some ds \<Rightarrow> join_nl ds)"

fun cloudflareValue :: "field \<Rightarrow> config \<Rightarrow> string" where
  "cloudflareValue FAPIKey c = APIKey (Cloudflare c)"
| "cloudflareValue FEmail c = Email (Cloudflare c)"
| "cloudflareValue FZoneID c = ZoneID (Cloudflare c)"
| "cloudflareValue FZoneName c = ZoneName (Cloudflare c)"
| "cloudflareValue FDomains c = join_or_empty (Domains (Cloudflare c))"
| "cloudflareValue FDomainIPv6s c = join_or_empty (DomainIPv6s (Cloudflare c))"
| "cloudflareValue _ c = []"

fun speedTestValue :: "field \<Rightarrow> config \<Rightarrow> jsnum" where
  "speedTestValue FRoutines c = Routines (SpeedTest c)"
| "speedTestValue FTCPPort c = TCPPort (SpeedTest c)"
| "speedTestValue FPingTimes c = PingTimes (SpeedTest c)"
| "speedTestValue FMaxDelay c = MaxDelay (SpeedTest c)"
| "speedTestValue FMinDelay c = js_or_num (MinDelay (SpeedTest c)) (Num 0)"
| "speedTestValue FMaxLossRate c = js_or_num (MaxLossRate (SpeedTest c)) (Num (1/5))"
| "speedTestValue FTestCount c = js_or_num (TestCount (SpeedTest c)) (Num 10)"
| "speedTestValue FDownloadTime c = js_or_num (DownloadTime (SpeedTest c)) (Num 10)"
| "speedTestValue FMinSpeed c = js_or_num (MinSpeed (SpeedTest c)) (Num 0)"
| "speedTestValue _ c = NaN"

fun modeValue :: "field \<Rightarrow> config \<Rightarrow> string" where
  "modeValue FSpeedTestURL c = js_or_str (SpeedTestURL (SpeedTest c)) []"
| "modeValue FTestType c = js_or_str (TestType (SpeedTest c)) ''IPV4''"
| "modeValue FIPv4File c = js_or_str (IPv4File (SpeedTest c)) ''ip.txt''"
| "modeValue FIPv6File c = js_or_str (IPv6File (SpeedTest c)) ''ipv6.txt''"
| "modeValue _ c = []"

fun field_group :: "field \<Rightarrow> nat" where
  "field_group f =
     (if f \<in> {FAPIKey, FEmail, FZoneID, FZoneName, FDomains, FDomainIPv6s} then 0
      else if f \<in> {FSpeedTestURL, FTestType, FIPv4File, FIPv6File} then 2 else 1)"

definition fieldValue :: "field \<Rightarrow> config \<Rightarrow> shown" where
  "fieldValue f c =
     (if field_group f = 0 then ShowStr (cloudflareValue f c)
      else if field_group f = 1 then ShowNum (speedTestValue f c)
      else ShowStr (modeValue f c))"

definition inputDisabled :: "field \<Rightarrow> config \<Rightarrow> bool" where
  "inputDisabled f c =
     (if f = FIPv4File then TestType (SpeedTest c) = ''IPV6''
      else if f = FIPv6File then TestType (SpeedTest c) \<noteq> ''IPV6'' else False)"

fun fieldOnChange :: "field \<Rightarrow> string \<Rightarrow> config \<Rightarrow> config" where
  "fieldOnChange FAPIKey v c = handleChange (SetAPIKey v) c"
| "fieldOnChange FEmail v c = handleChange (SetEmail v) c"
| "fieldOnChange FZoneID v c = handleChange (SetZoneID v) c"
| "fieldOnChange FZoneName v c = handleChange (SetZoneName v) c"
| "fieldOnChange FDomains v c = handleArrayChange ADomains v c"
| "fieldOnChange FDomainIPv6s v c = handleArrayChange ADomainIPv6s v c"
| "fieldOnChange FRoutines v c = handleChange (SetRoutines (js_parseInt v)) c"
| "fieldOnChange FTCPPort v c = handleChange (SetTCPPort (js_parseInt v)) c"
| "fieldOnChange FPingTimes v c = handleChange (SetPingTimes (js_parseInt v)) c"
| "fieldOnChange FMaxDelay v c = handleChange (SetMaxDelay (js_parseInt v)) c"
| "fieldOnChange FMinDelay v c = handleChange (SetMinDelay (js_parseInt v)) c"
| "fieldOnChange FMaxLossRate v c = handleChange (SetMaxLossRate (js_parseFloat v)) c"
| "fieldOnChange FTestCount v c = handleChange (SetTestCount (js_parseInt v)) c"
| "fieldOnChange FDownloadTime v c = handleChange (SetDownloadTime (js_parseInt v)) c"
| "fieldOnChange FMinSpeed v c = handleChange (SetMinSpeed (js_parseFloat v)) c"
| "fieldOnChange FSpeedTestURL v c = handleChange (SetSpeedTestURL v) c"
| "fieldOnChange FTestType v c = handleChange (SetTestType v) c"
| "fieldOnChange FIPv4File v c = handleChange (SetIPv4File v) c"
| "fieldOnChange FIPv6File v c = handleChange (SetIPv6File v) c"

fun switchValue :: "switch \<Rightarrow> config \<Rightarrow> bool" where
  "switchValue SwHttping c = Httping (SpeedTest c)"
| "switchValue SwDisableDownload c = DisableDownload (SpeedTest c)"
| "switchValue SwTestAllIP c = TestAllIP (SpeedTest c)"

fun switchOnChange :: "switch \<Rightarrow> bool \<Rightarrow> config \<Rightarrow> config" where
  "switchOnChange SwHttping b c = handleChange (SetHttping b) c"
| "switchOnChange SwDisableDownload b c = handleChange (SetDisableDownload b) c"
| "switchOnChange SwTestAllIP b c = handleChange (SetTestAllIP b) c"

text \<open>A record as the backend returns it for a file written with the defaults, used by the
  witnesses.\<close>

definition cfg_example :: config where
  "cfg_example =
     \<lparr>Cloudflare = \<lparr>APIKey = [], Email = [], ZoneID = [], ZoneName = [],
        Domains = Some [''a.com'', ''b.com''], DomainIPv6s = None\<rparr>,
      SpeedTest = \<lparr>Routines = Num 0, TCPPort = Num 8443, PingTimes = Num 0, MaxDelay = Num 0,
        MinDelay = Num 0, MaxLossRate = Num 0, TestCount = NaN, DownloadTime = Num 5,
        MinSpeed = Num 0, SpeedTestURL = [], TestType = [], IPv4File = [],
        IPv6File = [], Httping = False, DisableDownload = False, TestAllIP = False\<rparr>\<rparr>"

subsection \<open>Lemmas\<close>

lemma applyLoadDefaults_eq:
  "applyLoadDefaults c =
     c\<lparr>SpeedTest := (SpeedTest c)\<lparr>
        Routines := js_or_num (Routines (SpeedTest c)) (Num 200),
        PingTimes := js_or_num (PingTimes (SpeedTest c)) (Num 4),
        TestCount := js_or_num (TestCount (SpeedTest c)) (Num 10),
        DownloadTime := js_or_num (DownloadTime (SpeedTest c)) (Num 10),
        TCPPort := js_or_num (TCPPort (SpeedTest c)) (Num 443),
        MaxDelay := js_or_num (MaxDelay (SpeedTest c)) (Num 200),
        MaxLossRate := js_or_num (MaxLossRate (SpeedTest c)) (Num (1/5))\<rparr>\<rparr>"
  by (cases c, rename_tac cf st, case_tac st) (simp add: applyLoadDefaults_def js_or_num_def Let_def)

lemma js_or_num_truthy [simp]: "js_truthy_num d \<Longrightarrow> js_truthy_num (js_or_num x d)"
  by (simp add: js_or_num_def)

lemma js_or_num_idem [simp]: "js_or_num (js_or_num x d) d = js_or_num x d"
  by (simp add: js_or_num_def)

lemma js_or_num_Num [simp]: "x \<noteq> 0 \<Longrightarrow> js_or_num (Num x) d = Num x"
  by (simp add: js_or_num_def)

lemma js_or_num_falsy [simp]: "js_or_num (Num 0) d = d" "js_or_num NaN d = d"
  by (simp_all add: js_or_num_def)

subsection \<open>Properties of the editor\<close>

text \<open>C23. Load-time defaulting: after \<open>applyLoadDefaults\<close>, each of Routines,
  PingTimes, TestCount, DownloadTime, TCPPort, MaxDelay and MaxLossRate is truthy (non-zero
  and not NaN); it equals the source value when that was truthy and the default
  (200, 4, 10, 10, 443, 200, 0.2) otherwise.\<close>

theorem applyLoadDefaults_fields:
  "Routines (SpeedTest (applyLoadDefaults c)) = js_or_num (Routines (SpeedTest c)) (Num 200)
   \<and> PingTimes (SpeedTest (applyLoadDefaults c)) = js_or_num (PingTimes (SpeedTest c)) (Num 4)
   \<and> TestCount (SpeedTest (applyLoadDefaults c)) = js_or_num (TestCount (SpeedTest c)) (Num 10)
   \<and> DownloadTime (SpeedTest (applyLoadDefaults c)) = js_or_num (DownloadTime (SpeedTest c)) (Num 10)
   \<and> TCPPort (SpeedTest (applyLoadDefaults c)) = js_or_num (TCPPort (SpeedTest c)) (Num 443)
   \<and> MaxDelay (SpeedTest (applyLoadDefaults c)) = js_or_num (MaxDelay (SpeedTest c)) (Num 200)
   \<and> MaxLossRate (SpeedTest (applyLoadDefaults c)) = js_or_num (MaxLossRate (SpeedTest c)) (Num (1/5))
   \<and> js_truthy_num (Routines (SpeedTest (applyLoadDefaults c)))
   \<and> js_truthy_num (PingTimes (SpeedTest (applyLoadDefaults c)))
   \<and> js_truthy_num (TestCount (SpeedTest (applyLoadDefaults c)))
   \<and> js_truthy_num (DownloadTime (SpeedTest (applyLoadDefaults c)))
   \<and> js_truthy_num (TCPPort (SpeedTest (applyLoadDefaults c)))
   \<and> js_truthy_num (MaxDelay (SpeedTest (applyLoadDefaults c)))
   \<and> js_truthy_num (MaxLossRate (SpeedTest (applyLoadDefaults c)))"
  by (simp add: applyLoadDefaults_eq)

text \<open>Defaulting touches nothing else: the Cloudflare group, MinDelay and MinSpeed
  (which may legitimately be 0), the URL, the test type, the file paths and the switches
  are as loaded.\<close>

theorem applyLoadDefaults_frame:
  "Cloudflare (applyLoadDefaults c) = Cloudflare c
   \<and> MinDelay (SpeedTest (applyLoadDefaults c)) = MinDelay (SpeedTest c)
   \<and> MinSpeed (SpeedTest (applyLoadDefaults c)) = MinSpeed (SpeedTest c)
   \<and> SpeedTestURL (SpeedTest (applyLoadDefaults c)) = SpeedTestURL (SpeedTest c)
   \<and> TestType (SpeedTest (applyLoadDefaults c)) = TestType (SpeedTest c)
   \<and> IPv4File (SpeedTest (applyLoadDefaults c)) = IPv4File (SpeedTest c)
   \<and> IPv6File (SpeedTest (applyLoadDefaults c)) = IPv6File (SpeedTest c)
   \<and> Httping (SpeedTest (applyLoadDefaults c)) = Httping (SpeedTest c)
   \<and> DisableDownload (SpeedTest (applyLoadDefaults c)) = DisableDownload (SpeedTest c)
   \<and> TestAllIP (SpeedTest (applyLoadDefaults c)) = TestAllIP (SpeedTest c)"
  by (simp add: applyLoadDefaults_eq)

text \<open>C26. Both outcomes of \<open>LoadConfig\<close>: an error keeps the record in memory, shows
  the error text and ends loading; a result replaces the record by its normalised form,
  clears the status and ends loading.\<close>

theorem loadConfig_settle_paths:
  "cfg (loadConfig_settle (Inl err) e) = cfg e \<and> status (loadConfig_settle (Inl err) e) = st_error @ err
   \<and> \<not> loading (loadConfig_settle (Inl err) e)
   \<and> cfg (loadConfig_settle (Inr data) e) = applyLoadDefaults data
   \<and> status (loadConfig_settle (Inr data) e) = [] \<and> \<not> loading (loadConfig_settle (Inr data) e)"
  by (simp add: loadConfig_settle_def)

text \<open>C27. Each input edits its own field only: after the \<open>onChange\<close> of field \<open>f\<close>,
  every other field \<open>g\<close> shows what it showed before.\<close>

theorem fieldOnChange_frame:
  "f \<noteq> g \<Longrightarrow> fieldValue g (fieldOnChange f v c) = fieldValue g c"
  by (cases f; cases g) (simp_all add: fieldValue_def)

theorem fieldOnChange_frame_witness:
  "FRoutines \<noteq> FTestCount
   \<and> fieldValue FTestCount (fieldOnChange FRoutines ''300'' cfg_example) = ShowNum (Num 10)"
  using fieldOnChange_frame [of FRoutines FTestCount "''300''" cfg_example]
  by (simp add: fieldValue_def cfg_example_def)

text \<open>C28. The domain textarea round-trips: after typing a text, the textarea shows exactly
  that text (\<open>join(split(s)) = s\<close>); and re-submitting the text shown for a non-empty
  list of newline-free domains leaves the record unchanged.\<close>

theorem domains_roundtrip:
  "fieldValue FDomains (fieldOnChange FDomains v c) = ShowStr v
   \<and> (Domains (Cloudflare c) = Some ds \<longrightarrow> ds \<noteq> [] \<longrightarrow> list_all (\<lambda>d. nl \<notin> set d) ds \<longrightarrow>
      fieldOnChange FDomains (join_nl ds) c = c)"
  by (simp add: fieldValue_def join_or_empty_def join_split_nl split_join_nl)

theorem domains_roundtrip_witness:
  "fieldValue FDomains (fieldOnChange FDomains ''x.org'' cfg_example) = ShowStr ''x.org''
   \<and> Domains (Cloudflare cfg_example) = Some [''a.com'', ''b.com'']
   \<and> list_all (\<lambda>d. nl \<notin> set d) [''a.com'', ''b.com'']
   \<and> fieldOnChange FDomains (join_nl [''a.com'', ''b.com'']) cfg_example = cfg_example"
proof -
  have d: "Domains (Cloudflare cfg_example) = Some [''a.com'', ''b.com'']"
    by (simp add: cfg_example_def)
  have n: "list_all (\<lambda>d. nl \<notin> set d) [''a.com'', ''b.com'']" by (simp add: nl_def)
  show ?thesis using domains_roundtrip [of "''x.org''" cfg_example "[''a.com'', ''b.com'']"] d n
    by simp
qed

text \<open>C30. A display fallback is not a value: with an empty IPv4 file path the input shows
  \<open>ip.txt\<close>, while saving sends the record with the empty path.\<close>

theorem shown_file_not_saved:
  assumes "IPv4File (SpeedTest (cfg e)) = []"
  shows "fieldValue FIPv4File (cfg e) = ShowStr ''ip.txt''
    \<and> snd (handleSave_begin n e) = [SaveConfigCmd n (cfg e)]
    \<and> IPv4File (SpeedTest (cfg e)) \<noteq> ''ip.txt''"
  using assms by (simp add: fieldValue_def js_or_str_def handleSave_begin_def)

theorem shown_file_not_saved_witness:
  "IPv4File (SpeedTest (cfg \<lparr>cfg = cfg_example, loading = False, status = []\<rparr>)) = []
   \<and> fieldValue FIPv4File cfg_example = ShowStr ''ip.txt''
   \<and> snd (handleSave_begin ''a.yaml'' \<lparr>cfg = cfg_example, loading = False, status = []\<rparr>)
       = [SaveConfigCmd ''a.yaml'' cfg_example]"
proof -
  have "IPv4File (SpeedTest (cfg \<lparr>cfg = cfg_example, loading = False, status = []\<rparr>)) = []"
    by (simp add: cfg_example_def)
  from shown_file_not_saved [OF this, of "''a.yaml''"] this show ?thesis by simp
qed

text \<open>Clearing a numeric input stores \<open>NaN\<close> (\<open>parseInt("")\<close>); the TestCount
  input then shows its fallback 10, and the next load's defaulting replaces the value by
  10.\<close>

theorem cleared_number_defaults:
  "TestCount (SpeedTest (fieldOnChange FTestCount [] c)) = NaN
   \<and> fieldValue FTestCount (fieldOnChange FTestCount [] c) = ShowNum (Num 10)
   \<and> TestCount (SpeedTest (applyLoadDefaults (fieldOnChange FTestCount [] c))) = Num 10"
  by (simp add: fieldValue_def applyLoadDefaults_eq js_parseInt_def js_sign_def)

text \<open>C31. The integer inputs round-trip: for each input whose \<open>onChange\<close> uses
  \<open>parseInt\<close>, typing the text \<open>String(i)\<close> of a non-zero integer \<open>i\<close> (negative ones
  included) stores \<open>i\<close>, and the input then shows exactly \<open>i\<close> (no display fallback
  applies, since \<open>i\<close> is truthy).\<close>

theorem integer_input_roundtrip:
  assumes "f \<in> {FRoutines, FTCPPort, FPingTimes, FMaxDelay, FMinDelay, FTestCount, FDownloadTime}"
    and "i \<noteq> 0"
  shows "fieldValue f (fieldOnChange f (js_int_str i) c) = ShowNum (Num (of_int i))"
  using assms by (auto simp: fieldValue_def js_parseInt_int_str js_or_num_def)

theorem integer_input_roundtrip_witness:
  "FTCPPort \<in> {FRoutines, FTCPPort, FPingTimes, FMaxDelay, FMinDelay, FTestCount, FDownloadTime}
   \<and> (8443::int) \<noteq> 0 \<and> js_int_str 8443 = ''8443'' \<and> js_int_str (-7) = ''-7''
   \<and> fieldValue FTCPPort (fieldOnChange FTCPPort ''8443'' cfg_example) = ShowNum (Num 8443)"
proof -
  have s: "js_int_str 8443 = ''8443''" "js_int_str (-7) = ''-7''"
    by code_simp+
  have "fieldValue FTCPPort (fieldOnChange FTCPPort (js_int_str 8443) cfg_example)
        = ShowNum (Num (of_int 8443))"
    by (rule integer_input_roundtrip) simp_all
  then show ?thesis using s by simp
qed

text \<open>C32. Exactly one of the two file-path inputs is editable: the IPv4 path when the
  test type is not IPV6, the IPv6 path when it is.\<close>

theorem file_inputs_exclusive:
  "inputDisabled FIPv4File c \<longleftrightarrow> \<not> inputDisabled FIPv6File c"
  by (simp add: inputDisabled_def)

end
