(* ===== verification/ConfigStore.thy ===== *)
theory ConfigStore
  imports Config "HOL-Library.AList"
begin

text \<open>
  The configuration store and its client, the Sidebar
  (\<open>src/frontend/src/components/Sidebar.tsx\<close>).

  The store itself is the Go backend's \<open>GetConfigList\<close>, \<open>LoadConfig\<close>,
  \<open>SaveConfig\<close>, \<open>CreateNewConfig\<close> and \<open>DeleteConfig\<close>, which are not under
  \<open>src/\<close>: it is modelled from the spec (section 4.3) as an association list from file
  names to records, in creation order, with the spec's error classes. \<open>store_create\<close>
  writes \<open>defaultConfig\<close>, the record "populated with all defaults".

  The Sidebar's state (lines 35--37) is the record \<open>sidebar\<close>; it reads and sets the
  App's \<open>activeConfig\<close> (a prop) and calls the store. Each handler runs its awaited
  calls in order with nothing interleaved, and takes the store's answers from the store
  model: \<open>refreshConfigs\<close> (lines 43--53), \<open>handleCreateConfig\<close> (lines 55--74,
  with the name normalisation \<open>normalizeName\<close> of lines 58--61) and
  \<open>handleDelete\<close> (the delete button, lines 171--184). A handler reads
  \<open>activeConfig\<close> from the render it was created in (a closure), which
  \<open>refreshConfigs\<close> takes as its first argument. Errors are surfaced as alerts
  (\<open>alerts\<close>) or ignored (\<open>console.error\<close>), as the code does.

  What the Sidebar renders is \<open>sidebar_view\<close>; \<open>sb_step\<close> is one action of the user
  on a rendered control, and \<open>sb_run\<close> a sequence of them, over which the invariant
  \<open>sb_inv\<close> (the list is the store's, with distinct names) is proved.
\<close>

datatype store_error = NotFound | NameConflict | ValidationFailure

type_synonym store = "(string \<times> config) list"

definition defaultConfig :: config where
  "defaultConfig =
     \<lparr>Cloudflare = \<lparr>APIKey = [], Email = [], ZoneID = [], ZoneName = [],
        Domains = Some [], DomainIPv6s = Some []\<rparr>,
      SpeedTest = \<lparr>Routines = Num 200, TCPPort = Num 443, PingTimes = Num 4, MaxDelay = Num 200,
        MinDelay = Num 0, MaxLossRate = Num (1/5), TestCount = Num 10, DownloadTime = Num 10,
        MinSpeed = Num 0, SpeedTestURL = [], TestType = ''IPV4'', IPv4File = ''ip.txt'',
        IPv6File = ''ipv6.txt'', Httping = False, DisableDownload = False, TestAllIP = False\<rparr>\<rparr>"

definition store_list :: "store \<Rightarrow> string list" where
  "store_list st = map fst st"

definition store_load :: "string \<Rightarrow> store \<Rightarrow> store_error + config" where
  "store_load n st = (case map_of st n of None \<Rightarrow> Inl NotFound | Some c \<Rightarrow> Inr c)"

definition store_save :: "string \<Rightarrow> config \<Rightarrow> store \<Rightarrow> store" where
  "store_save n c st = AList.update n c st"

definition store_create :: "string \<Rightarrow> store \<Rightarrow> store_error + store" where
  "store_create n st =
     (if n = [] then Inl ValidationFailure
      else if n \<in> set (store_list st) then Inl NameConflict
      else Inr (st @ [(n, defaultConfig)]))"

definition store_delete :: "string \<Rightarrow> store \<Rightarrow> store_error + store" where
  "store_delete n st =
     (if n \<notin> set (store_list st) then Inl NotFound else Inr (AList.delete n st))"

definition error_text :: "store_error \<Rightarrow> string" where
  "error_text e = (case e of NotFound \<Rightarrow> ''not found'' | NameConflict \<Rightarrow> ''name conflict''
                   | ValidationFailure \<Rightarrow> ''invalid name'')"

subsection \<open>The Sidebar\<close>

record sidebar =
  configs :: "string list"
  isCreating :: bool
  newConfigName :: string
  active :: string
  store :: store
  alerts :: "string list"

definition create_failed :: string where "create_failed = ''Create failed: ''"

definition refreshConfigs :: "string \<Rightarrow> sidebar \<Rightarrow> sidebar" where
  "refreshConfigs activeConfig w =
     (let list = store_list (store w)
      in w\<lparr>configs := list,
           active := (if list \<noteq> [] \<and> activeConfig = [] then hd list else active w)\<rparr>)"

definition normalizeName :: "string \<Rightarrow> string" where
  "normalizeName name =
     (if \<not> js_endsWith name ''.yaml'' \<and> \<not> js_endsWith name ''.yml'' then name @ ''.yaml''
      else name)"

definition handleCreateConfig :: "sidebar \<Rightarrow> sidebar" where
  "handleCreateConfig w =
     (if js_trim (newConfigName w) = [] then w
      else
        (let name = normalizeName (js_trim (newConfigName w))
         in case store_create name (store w) of
              Inl err \<Rightarrow> w\<lparr>alerts := alerts w @ [create_failed @ error_text err]\<rparr>
            | Inr st' \<Rightarrow>
                (refreshConfigs (active w) (w\<lparr>store := st'\<rparr>))
                  \<lparr>active := name, isCreating := False, newConfigName := []\<rparr>))"

definition handleDelete :: "string \<Rightarrow> bool \<Rightarrow> sidebar \<Rightarrow> sidebar" where
  "handleDelete cfgName confirmed w =
     (if \<not> confirmed then w
      else case store_delete cfgName (store w) of
             Inl err \<Rightarrow> w\<lparr>alerts := alerts w @ [error_text err]\<rparr>
           | Inr st' \<Rightarrow>
               refreshConfigs (active w)
                 (w\<lparr>store := st', active := (if active w = cfgName then [] else active w)\<rparr>))"

definition startCreating :: "sidebar \<Rightarrow> sidebar" where
  "startCreating w = w\<lparr>isCreating := True\<rparr>"

definition cancelCreating :: "sidebar \<Rightarrow> sidebar" where
  "cancelCreating w = w\<lparr>isCreating := False\<rparr>"

definition typeName :: "string \<Rightarrow> sidebar \<Rightarrow> sidebar" where
  "typeName v w = w\<lparr>newConfigName := v\<rparr>"

definition sidebar_mount :: "store \<Rightarrow> sidebar" where
  "sidebar_mount st =
     refreshConfigs []
       \<lparr>configs = [], isCreating = False, newConfigName = [], active = [], store = st, alerts = []\<rparr>"

subsection \<open>The Sidebar as the user drives it\<close>

text \<open>What the Sidebar renders (lines 76--203), without layout: the new-config form with
  its text while \<open>isCreating\<close> (lines 129--154), and one item per listed file, marked
  when it is the active configuration (lines 156--170).\<close>

record sidebar_view =
  formShown :: bool
  formText :: string
  items :: "(string \<times> bool) list"

definition sidebar_view :: "sidebar \<Rightarrow> sidebar_view" where
  "sidebar_view w =
     \<lparr>formShown = isCreating w, formText = newConfigName w,
      items = map (\<lambda>c. (c, active w = c)) (configs w)\<rparr>"

text \<open>The user's actions, each offered only where the view renders its control: the
  \<open>+\<close> button (line 121), typing into and submitting the form by Enter or the check
  button and cancelling it (lines 134--151, only while the form is shown), clicking a listed
  file (line 166) and its delete button, with the answer of the \<open>confirm\<close> dialog
  (lines 171--184).\<close>

datatype sb_event =
    SbOpenForm
  | SbType string
  | SbSubmit
  | SbCancel
  | SbSelect string
  | SbDelete string bool

fun sb_step :: "sb_event \<Rightarrow> sidebar \<Rightarrow> sidebar option" where
  "sb_step SbOpenForm w = Some (startCreating w)"
| "sb_step (SbType v) w = (if isCreating w then Some (typeName v w) else None)"
| "sb_step SbSubmit w = (if isCreating w then Some (handleCreateConfig w) else None)"
| "sb_step SbCancel w = (if isCreating w then Some (cancelCreating w) else None)"
| "sb_step (SbSelect c) w = (if c \<in> set (configs w) then Some (w\<lparr>active := c\<rparr>) else None)"
| "sb_step (SbDelete c ok) w = (if c \<in> set (configs w) then Some (handleDelete c ok w) else None)"

fun sb_run :: "sb_event list \<Rightarrow> sidebar \<Rightarrow> sidebar option" where
  "sb_run [] w = Some w"
| "sb_run (e # es) w = (case sb_step e w of None \<Rightarrow> None | Some w' \<Rightarrow> sb_run es w')"

text \<open>The invariant: the list shown is the store's list of names, and the names are
  distinct.\<close>

definition sb_inv :: "sidebar \<Rightarrow> bool" where
  "sb_inv w \<longleftrightarrow> configs w = store_list (store w) \<and> distinct (store_list (store w))"

text \<open>A Sidebar over a store with two files, \<open>a.yaml\<close> active, and the text
  \<open>" b "\<close> typed into the new-config input; used by the witnesses.\<close>

definition sb_example :: sidebar where
  "sb_example =
     \<lparr>configs = [''a.yaml'', ''c.yml''], isCreating = True, newConfigName = '' b '',
      active = ''a.yaml'', store = [(''a.yaml'', defaultConfig), (''c.yml'', defaultConfig)],
      alerts = []\<rparr>"

subsection \<open>Lemmas\<close>

lemma store_list_delete [simp]:
  "store_list (AList.delete n st) = filter (\<lambda>k. k \<noteq> n) (store_list st)"
  by (induction st) (auto simp: store_list_def AList.delete_eq)

lemma normalizeName_ends:
  "js_endsWith (normalizeName t) ''.yaml'' \<or> js_endsWith (normalizeName t) ''.yml''"
  by (auto simp: normalizeName_def)

lemma normalizeName_idem: "normalizeName (normalizeName t) = normalizeName t"
  using normalizeName_ends [of t] by (simp add: normalizeName_def)

lemma normalizeName_nonempty: "t \<noteq> [] \<Longrightarrow> normalizeName t \<noteq> []"
  by (simp add: normalizeName_def)

lemma normalizeName_trimmed:
  assumes "js_trim s \<noteq> []"
  shows "js_trim (normalizeName (js_trim s)) = normalizeName (js_trim s)"
proof (rule js_trim_id)
  let ?t = "js_trim s"
  have e: "\<not> js_ws (hd ?t) \<and> \<not> js_ws (last ?t)" using assms by (rule js_trim_ends)
  show "normalizeName ?t = [] \<or> \<not> js_ws (hd (normalizeName ?t)) \<and> \<not> js_ws (last (normalizeName ?t))"
    using e assms by (simp add: normalizeName_def js_ws_def)
qed

lemma store_create_fresh:
  "n \<noteq> [] \<Longrightarrow> n \<notin> set (store_list st) \<Longrightarrow> store_create n st = Inr (st @ [(n, defaultConfig)])"
  by (simp add: store_create_def)

lemma handleCreateConfig_store:
  assumes "js_trim (newConfigName w) \<noteq> []"
    and "normalizeName (js_trim (newConfigName w)) \<notin> set (store_list (store w))"
  shows "store (handleCreateConfig w) = store w @ [(normalizeName (js_trim (newConfigName w)), defaultConfig)]"
  using assms by (simp add: handleCreateConfig_def refreshConfigs_def Let_def store_create_fresh
      normalizeName_nonempty)

lemma handleCreateConfig_active:
  assumes "js_trim (newConfigName w) \<noteq> []"
    and "normalizeName (js_trim (newConfigName w)) \<notin> set (store_list (store w))"
  shows "active (handleCreateConfig w) = normalizeName (js_trim (newConfigName w))"
  using assms by (simp add: handleCreateConfig_def refreshConfigs_def Let_def store_create_fresh
      normalizeName_nonempty)

lemma store_load_save: "store_load n (store_save n c st) = Inr c"
  by (simp add: store_load_def store_save_def update_conv')

lemma sb_example_name: "js_trim (newConfigName sb_example) = ''b''"
  by (simp add: sb_example_def js_trim_def js_ws_def)

lemma sb_example_fresh:
  "normalizeName (js_trim (newConfigName sb_example)) = ''b.yaml''"
  "''b.yaml'' \<notin> set (store_list (store sb_example))"
proof -
  show "normalizeName (js_trim (newConfigName sb_example)) = ''b.yaml''"
    by (simp only: sb_example_name) (simp add: normalizeName_def js_endsWith_def)
  show "''b.yaml'' \<notin> set (store_list (store sb_example))"
    by (simp add: sb_example_def store_list_def)
qed

lemma distinct_store_create:
  "store_create n st = Inr st' \<Longrightarrow> distinct (store_list st) \<Longrightarrow> distinct (store_list st')"
  by (auto simp: store_create_def store_list_def split: if_splits)

lemma distinct_store_delete:
  "store_delete n st = Inr st' \<Longrightarrow> distinct (store_list st) \<Longrightarrow> distinct (store_list st')"
  by (auto simp: store_delete_def split: if_splits)

lemma refreshConfigs_inv: "distinct (store_list (store w)) \<Longrightarrow> sb_inv (refreshConfigs a w)"
  by (simp add: sb_inv_def refreshConfigs_def Let_def)

lemma handleCreateConfig_inv: "sb_inv w \<Longrightarrow> sb_inv (handleCreateConfig w)"
  unfolding handleCreateConfig_def Let_def
  by (auto simp: sb_inv_def refreshConfigs_def Let_def dest: distinct_store_create split: sum.splits)

lemma handleDelete_inv: "sb_inv w \<Longrightarrow> sb_inv (handleDelete c ok w)"
  unfolding handleDelete_def
  by (auto simp: sb_inv_def refreshConfigs_def Let_def dest: distinct_store_delete split: sum.splits)

lemma sb_inv_frame [simp]:
  "sb_inv (startCreating w) = sb_inv w" "sb_inv (cancelCreating w) = sb_inv w"
  "sb_inv (typeName v w) = sb_inv w" "sb_inv (w\<lparr>active := c\<rparr>) = sb_inv w"
  by (simp_all add: sb_inv_def startCreating_def cancelCreating_def typeName_def)

lemma sb_step_inv: "sb_step e w = Some w' \<Longrightarrow> sb_inv w \<Longrightarrow> sb_inv w'"
  by (cases e) (auto simp: handleCreateConfig_inv handleDelete_inv split: if_splits)

lemma sb_run_inv: "sb_run es w = Some w' \<Longrightarrow> sb_inv w \<Longrightarrow> sb_inv w'"
proof (induction es arbitrary: w)
  case Nil
  then show ?case by simp
next
  case (Cons e es)
  then obtain w1 where "sb_step e w = Some w1" and "sb_run es w1 = Some w'"
    by (auto split: option.splits)
  with Cons show ?case by (blast intro: sb_step_inv)
qed

lemma sidebar_mount_inv: "distinct (store_list st) \<Longrightarrow> sb_inv (sidebar_mount st)"
  by (simp add: sidebar_mount_def refreshConfigs_inv)

lemma distinct_filter_eq_le1: "distinct xs \<Longrightarrow> length (filter (\<lambda>c. a = c) xs) \<le> 1"
  by (induction xs) (auto simp: filter_empty_conv)

lemma filter_marked:
  "filter snd (map (\<lambda>c. (c, a = c)) xs) = map (\<lambda>c. (c, True)) (filter (\<lambda>c. a = c) xs)"
  by (induction xs) auto

lemma marked_items:
  "filter snd (items (sidebar_view w)) = map (\<lambda>c. (c, True)) (filter (\<lambda>c. active w = c) (configs w))"
  by (simp add: sidebar_view_def filter_marked)

subsection \<open>Properties of the Sidebar and the store\<close>

text \<open>C33. Creating the same name twice: after a successful create, submitting the same
  text again fails with a name conflict, which is shown as an alert, and the store is
  unchanged.\<close>

theorem create_same_name_twice:
  assumes "js_trim (newConfigName w) \<noteq> []"
    and "normalizeName (js_trim (newConfigName w)) \<notin> set (store_list (store w))"
  shows "store (handleCreateConfig (typeName (newConfigName w) (handleCreateConfig w)))
         = store (handleCreateConfig w)
    \<and> alerts (handleCreateConfig (typeName (newConfigName w) (handleCreateConfig w)))
        = alerts (handleCreateConfig w) @ [create_failed @ error_text NameConflict]"
proof -
  let ?n = "normalizeName (js_trim (newConfigName w))"
  let ?w1 = "handleCreateConfig w"
  have s1: "store ?w1 = store w @ [(?n, defaultConfig)]"
    using assms by (rule handleCreateConfig_store)
  have "store_create ?n (store ?w1) = Inl NameConflict"
    using s1 assms(1) by (simp add: store_create_def store_list_def normalizeName_nonempty)
  then show ?thesis using assms(1) by (simp add: handleCreateConfig_def typeName_def Let_def)
qed

theorem create_same_name_twice_witness:
  "js_trim (newConfigName sb_example) \<noteq> []
   \<and> normalizeName (js_trim (newConfigName sb_example)) \<notin> set (store_list (store sb_example))
   \<and> store (handleCreateConfig (typeName '' b '' (handleCreateConfig sb_example)))
       = store (handleCreateConfig sb_example)"
  using create_same_name_twice [of sb_example] sb_example_name sb_example_fresh
  by (simp add: sb_example_def)

text \<open>C34. Deleting a name the store does not hold fails with NotFound (an alert) and
  changes nothing else.\<close>

theorem delete_missing_not_found:
  assumes "n \<notin> set (store_list (store w))"
  shows "handleDelete n True w = w\<lparr>alerts := alerts w @ [error_text NotFound]\<rparr>"
  using assms by (simp add: handleDelete_def store_delete_def)

theorem delete_missing_not_found_witness:
  "''zzz.yaml'' \<notin> set (store_list (store sb_example))
   \<and> handleDelete ''zzz.yaml'' True sb_example
       = sb_example\<lparr>alerts := alerts sb_example @ [error_text NotFound]\<rparr>"
proof -
  have "''zzz.yaml'' \<notin> set (store_list (store sb_example))"
    by (simp add: sb_example_def store_list_def)
  with delete_missing_not_found [OF this] show ?thesis by simp
qed

text \<open>Name normalisation: a name that is not blank after trimming becomes a non-empty
  name ending in \<open>.yaml\<close> or \<open>.yml\<close>, and normalising it again (trim, then the
  extension rule) changes nothing.\<close>

theorem normalizeName_props:
  assumes "js_trim s \<noteq> []"
  shows "normalizeName (js_trim s) \<noteq> []
    \<and> (js_endsWith (normalizeName (js_trim s)) ''.yaml'' \<or> js_endsWith (normalizeName (js_trim s)) ''.yml'')
    \<and> normalizeName (js_trim (normalizeName (js_trim s))) = normalizeName (js_trim s)"
  using assms normalizeName_ends [of "js_trim s"] normalizeName_trimmed [OF assms] normalizeName_idem
  by (simp add: normalizeName_nonempty)

theorem normalizeName_props_witness:
  "js_trim '' b '' \<noteq> [] \<and> normalizeName (js_trim '' b '') = ''b.yaml''"
proof -
  have t: "js_trim '' b '' = ''b''" by (simp add: js_trim_def js_ws_def)
  then have ne: "js_trim '' b '' \<noteq> []" by simp
  have "normalizeName ''b'' = ''b.yaml''" by (simp add: normalizeName_def js_endsWith_def)
  with normalizeName_props [OF ne] ne show ?thesis by (simp add: t)
qed

text \<open>C36. A successful create: with a non-blank, fresh name, the new file holds the
  default record, the list is refreshed from the store and holds exactly the earlier names
  and the new one (in whatever order the store lists them), the new file becomes the
  active configuration, and the input is closed and cleared.\<close>

theorem handleCreateConfig_success:
  assumes "js_trim (newConfigName w) \<noteq> []"
    and "normalizeName (js_trim (newConfigName w)) \<notin> set (store_list (store w))"
  shows "active (handleCreateConfig w) = normalizeName (js_trim (newConfigName w))
    \<and> configs (handleCreateConfig w) = store_list (store (handleCreateConfig w))
    \<and> set (configs (handleCreateConfig w))
        = insert (normalizeName (js_trim (newConfigName w))) (set (store_list (store w)))
    \<and> \<not> isCreating (handleCreateConfig w) \<and> newConfigName (handleCreateConfig w) = []
    \<and> store_load (normalizeName (js_trim (newConfigName w))) (store (handleCreateConfig w))
        = Inr defaultConfig"
proof -
  let ?n = "normalizeName (js_trim (newConfigName w))"
  have c: "store_create ?n (store w) = Inr (store w @ [(?n, defaultConfig)])"
    using assms by (simp add: store_create_fresh normalizeName_nonempty)
  have "map_of (store w) ?n = None" using assms(2) by (simp add: store_list_def map_of_eq_None_iff)
  with c assms(1) show ?thesis
    by (simp add: handleCreateConfig_def refreshConfigs_def store_load_def store_list_def
        map_of_append map_add_def Let_def)
qed

theorem handleCreateConfig_success_witness:
  "js_trim (newConfigName sb_example) \<noteq> []
   \<and> ''b.yaml'' \<notin> set (store_list (store sb_example))
   \<and> active (handleCreateConfig sb_example) = ''b.yaml''
   \<and> set (configs (handleCreateConfig sb_example)) = {''a.yaml'', ''c.yml'', ''b.yaml''}"
proof -
  have h: "js_trim (newConfigName sb_example) \<noteq> []"
    "normalizeName (js_trim (newConfigName sb_example)) \<notin> set (store_list (store sb_example))"
    using sb_example_name sb_example_fresh by simp_all
  note r = handleCreateConfig_success [OF h]
  have l: "set (store_list (store sb_example)) = {''a.yaml'', ''c.yml''}"
    by (simp add: sb_example_def store_list_def)
  have a: "active (handleCreateConfig sb_example) = ''b.yaml''"
    using r [THEN conjunct1] unfolding sb_example_fresh(1) .
  have c: "set (configs (handleCreateConfig sb_example)) = insert ''b.yaml'' {''a.yaml'', ''c.yml''}"
    using r [THEN conjunct2, THEN conjunct2, THEN conjunct1] unfolding sb_example_fresh(1) l .
  show ?thesis using h(1) a c sb_example_fresh(2) by auto
qed

text \<open>On mount the Sidebar lists the store's names and, since no configuration is
  active yet, selects the first one (none when the store is empty).\<close>

theorem sidebar_mount_selects_first:
  "active (sidebar_mount st) = (case store_list st of [] \<Rightarrow> [] | n # _ \<Rightarrow> n)
   \<and> configs (sidebar_mount st) = store_list st"
  by (simp add: sidebar_mount_def refreshConfigs_def split: list.splits)

text \<open>C38. Deleting the active configuration clears the selection even when other
  configurations remain (the refresh reads the stale, non-empty \<open>activeConfig\<close> of
  its closure and does not select another), the name leaves the list, and deleting it
  a second time fails with NotFound.\<close>

theorem delete_active_clears_selection:
  assumes "active w = n" and "n \<noteq> []" and "n \<in> set (store_list (store w))"
  shows "active (handleDelete n True w) = [] \<and> n \<notin> set (configs (handleDelete n True w))
    \<and> handleDelete n True (handleDelete n True w)
        = (handleDelete n True w)\<lparr>alerts := alerts (handleDelete n True w) @ [error_text NotFound]\<rparr>"
  using assms by (auto simp: handleDelete_def store_delete_def refreshConfigs_def Let_def)

theorem delete_active_clears_selection_witness:
  "active sb_example = ''a.yaml'' \<and> ''a.yaml'' \<in> set (store_list (store sb_example))
   \<and> active (handleDelete ''a.yaml'' True sb_example) = []
   \<and> configs (handleDelete ''a.yaml'' True sb_example) = [''c.yml'']"
proof -
  have a: "active sb_example = ''a.yaml''" and m: "''a.yaml'' \<in> set (store_list (store sb_example))"
    by (simp_all add: sb_example_def store_list_def)
  have "configs (handleDelete ''a.yaml'' True sb_example) = [''c.yml'']"
    by (simp add: handleDelete_def store_delete_def refreshConfigs_def sb_example_def store_list_def)
  with delete_active_clears_selection [OF a _ m] a m show ?thesis by simp
qed


text \<open>C37. Whatever the user does in the Sidebar (open, type, submit or cancel the form,
  select, delete with either answer to the dialog), starting from the mount over a store
  with distinct names: the list shown is the store's list, its names stay distinct, and at
  most one item is marked active.\<close>

theorem sidebar_list_matches_store:
  assumes "distinct (store_list st0)" and "sb_run es (sidebar_mount st0) = Some w"
  shows "configs w = store_list (store w) \<and> distinct (configs w)
         \<and> length (filter snd (items (sidebar_view w))) \<le> 1"
proof -
  have "sb_inv w" using sb_run_inv [OF assms(2) sidebar_mount_inv [OF assms(1)]] .
  then have c: "configs w = store_list (store w)" and d: "distinct (configs w)"
    by (simp_all add: sb_inv_def)
  have "length (filter snd (items (sidebar_view w))) = length (filter (\<lambda>c. active w = c) (configs w))"
    by (simp add: marked_items)
  also have "\<dots> \<le> 1" using d by (rule distinct_filter_eq_le1)
  finally show ?thesis using c d by simp
qed

theorem sidebar_list_matches_store_witness:
  "distinct (store_list (store sb_example))
   \<and> (\<exists>w. sb_run [SbOpenForm, SbType '' b '', SbSubmit, SbSelect ''a.yaml'', SbDelete ''c.yml'' True]
              (sidebar_mount (store sb_example)) = Some w
        \<and> configs w = [''a.yaml'', ''b.yaml''] \<and> active w = ''a.yaml''
        \<and> configs w = store_list (store w) \<and> distinct (configs w)
        \<and> length (filter snd (items (sidebar_view w))) \<le> 1)"
proof -
  have d: "distinct (store_list (store sb_example))" by (simp add: sb_example_def store_list_def)
  have "\<exists>w. sb_run [SbOpenForm, SbType '' b '', SbSubmit, SbSelect ''a.yaml'', SbDelete ''c.yml'' True]
              (sidebar_mount (store sb_example)) = Some w
        \<and> configs w = [''a.yaml'', ''b.yaml''] \<and> active w = ''a.yaml''"
    by (simp add: sb_example_def sidebar_mount_def refreshConfigs_def store_list_def startCreating_def
        typeName_def handleCreateConfig_def js_trim_def js_ws_def normalizeName_def js_endsWith_def
        store_create_def handleDelete_def store_delete_def Let_def)
  then obtain w where r: "sb_run [SbOpenForm, SbType '' b '', SbSubmit, SbSelect ''a.yaml'', SbDelete ''c.yml'' True]
              (sidebar_mount (store sb_example)) = Some w"
    and p: "configs w = [''a.yaml'', ''b.yaml'']" "active w = ''a.yaml''" by blast
  show ?thesis using sidebar_list_matches_store [OF d r] d r p by blast
qed

end
