(* ===== verification/EditorSystem.thy ===== *)
theory EditorSystem
  imports ConfigStore
begin

text \<open>
  The ConfigEditor (\<open>src/frontend/src/components/ConfigEditor.tsx\<close>) as an interleaved
  system. Its two async handlers, \<open>loadConfig\<close> and \<open>handleSave\<close>, are split at their
  \<open>await\<close> (Config theory); here their calls are in flight at the same time as the user's
  clicks and as each other, and settle in any order. The state \<open>esys\<close> holds the App's
  \<open>activeConfig\<close> prop, the editor's React state, the \<open>LoadConfig\<close> and
  \<open>SaveConfig\<close> calls in flight (each with the arguments it was issued with), the pending
  status-clearing timers of \<open>setTimeout\<close> and the backend store. One function
  \<open>estep\<close> gives the effect of each event and is \<open>None\<close> when the rendered editor does
  not offer it; \<open>erun\<close> runs a list of events. Both compute, so every scenario below is
  a run evaluated by \<open>simp\<close>.
\<close>

subsection \<open>The backend as the editor sees it\<close>

text \<open>\<open>LoadConfig\<close>: the store's answer, an error turned into its text (the code renders
  \<open>${e}\<close>).\<close>

definition backend_load :: "string \<Rightarrow> store \<Rightarrow> string + config" where
  "backend_load n st = (case store_load n st of Inl err \<Rightarrow> Inl (error_text err) | Inr c \<Rightarrow> Inr c)"

subsection \<open>State, events and steps\<close>

record esys =
  eActive :: string
  ed :: editor
  loads :: "string list"
  saves :: "(string \<times> config) list"
  timers :: nat
  files :: store

datatype eevent =
    Select string
  | ClickReload
  | ClickSave
  | LoadDone nat
  | SaveDone nat "string + unit"
  | TimerFires
  | Edit field string
  | Toggle switch bool

text \<open>A command a handler returns is a backend call in flight.\<close>

fun issue :: "ecommand \<Rightarrow> esys \<Rightarrow> esys" where
  "issue (LoadConfigCmd n) s = s\<lparr>loads := loads s @ [n]\<rparr>"
| "issue (SaveConfigCmd n c) s = s\<lparr>saves := saves s @ [(n, c)]\<rparr>"

definition run_handler :: "(editor \<Rightarrow> editor \<times> ecommand list) \<Rightarrow> esys \<Rightarrow> esys" where
  "run_handler h s = (let (e', cmds) = h (ed s) in fold issue cmds (s\<lparr>ed := e'\<rparr>))"

text \<open>The editor's mount (lines 11--22): fresh state holding the record \<open>c0\<close> of
  \<open>new ConfigModels.Config()\<close>, then the effect on \<open>[activeConfig]\<close>, which loads
  when a configuration is selected.\<close>

definition editor_mount :: "string \<Rightarrow> config \<Rightarrow> store \<Rightarrow> esys" where
  "editor_mount ac c0 st0 =
     (let s = \<lparr>eActive = ac, ed = \<lparr>cfg = c0, loading = False, status = []\<rparr>,
               loads = [], saves = [], timers = 0, files = st0\<rparr>
      in if ac = [] then s else run_handler (loadConfig_begin ac) s)"

text \<open>The editor's form exists only when a configuration is selected (lines 85--92); the
  reload and save buttons are \<open>disabled={loading}\<close> (lines 101--117). A new
  \<open>activeConfig\<close> re-runs the load effect (lines 18--22); setting the same value again
  does not re-render. A successful save arms a timer that clears the status (line 55).\<close>

fun estep :: "eevent \<Rightarrow> esys \<Rightarrow> esys option" where
  "estep (Select c) s =
     (if c = eActive s then Some s
      else if c = [] then Some (s\<lparr>eActive := c\<rparr>)
      else Some (run_handler (loadConfig_begin c) (s\<lparr>eActive := c\<rparr>)))"
| "estep ClickReload s =
     (if eActive s \<noteq> [] \<and> \<not> loading (ed s)
      then Some (run_handler (loadConfig_begin (eActive s)) s) else None)"
| "estep ClickSave s =
     (if eActive s \<noteq> [] \<and> \<not> loading (ed s)
      then Some (run_handler (handleSave_begin (eActive s)) s) else None)"
| "estep (LoadDone i) s =
     (if i < length (loads s)
      then Some (s\<lparr>ed := loadConfig_settle (backend_load (loads s ! i) (files s)) (ed s),
                  loads := del_at i (loads s)\<rparr>)
      else None)"
| "estep (SaveDone i r) s =
     (if i < length (saves s)
      then Some (case saves s ! i of (n, c) \<Rightarrow>
             s\<lparr>ed := handleSave_settle r (ed s), saves := del_at i (saves s),
               files := (case r of Inr _ \<Rightarrow> store_save n c (files s) | Inl _ \<Rightarrow> files s),
               timers := (case r of Inr _ \<Rightarrow> Suc (timers s) | Inl _ \<Rightarrow> timers s)\<rparr>)
      else None)"
| "estep TimerFires s =
     (if 0 < timers s then Some (s\<lparr>ed := saveStatusTimeout (ed s), timers := timers s - 1\<rparr>)
      else None)"
| "estep (Edit f v) s =
     (if eActive s \<noteq> [] then Some (s\<lparr>ed := (ed s)\<lparr>cfg := fieldOnChange f v (cfg (ed s))\<rparr>\<rparr>)
      else None)"
| "estep (Toggle w b) s =
     (if eActive s \<noteq> [] then Some (s\<lparr>ed := (ed s)\<lparr>cfg := switchOnChange w b (cfg (ed s))\<rparr>\<rparr>)
      else None)"

fun erun :: "eevent list \<Rightarrow> esys \<Rightarrow> esys option" where
  "erun [] s = Some s"
| "erun (e # es) s = (case estep e s of None \<Rightarrow> None | Some s' \<Rightarrow> erun es s')"

text \<open>The invariant: the editor shows \<open>loading\<close> only while some call is in flight.\<close>

definition esys_inv :: "esys \<Rightarrow> bool" where
  "esys_inv s \<longleftrightarrow> (loading (ed s) \<longrightarrow> loads s \<noteq> [] \<or> saves s \<noteq> [])"

text \<open>Settling everything in flight, oldest first, then firing the timers.\<close>

definition drain :: "esys \<Rightarrow> eevent list" where
  "drain s = replicate (length (loads s)) (LoadDone 0)
             @ replicate (length (saves s)) (SaveDone 0 (Inr ()))
             @ replicate (timers s + length (saves s)) TimerFires"


text \<open>Scenario data: two files, \<open>a.yaml\<close> with the defaults and \<open>b.yaml\<close> that tests
  20 addresses instead of 10.\<close>

definition cfg_b :: config where
  "cfg_b = defaultConfig\<lparr>SpeedTest := (SpeedTest defaultConfig)\<lparr>TestCount := Num 20\<rparr>\<rparr>"

definition es_store :: store where
  "es_store = [(''a.yaml'', defaultConfig), (''b.yaml'', cfg_b)]"

subsection \<open>Lemmas\<close>

lemma run_handler_load [simp]:
  "run_handler (loadConfig_begin n) s =
     s\<lparr>ed := (ed s)\<lparr>loading := True, status := st_loading\<rparr>, loads := loads s @ [n]\<rparr>"
  by (simp add: run_handler_def loadConfig_begin_def)

lemma run_handler_save [simp]:
  "run_handler (handleSave_begin n) s =
     s\<lparr>ed := (ed s)\<lparr>loading := True, status := st_saving\<rparr>, saves := saves s @ [(n, cfg (ed s))]\<rparr>"
  by (simp add: run_handler_def handleSave_begin_def)

lemma erun_append:
  "erun (xs @ ys) s = (case erun xs s of None \<Rightarrow> None | Some s' \<Rightarrow> erun ys s')"
  by (induction xs arbitrary: s) (simp_all split: option.splits)

lemma erun_appendI:
  "erun xs s = Some s1 \<Longrightarrow> erun ys s1 = Some s2 \<Longrightarrow> erun (xs @ ys) s = Some s2"
  by (simp add: erun_append)

lemma settle_not_loading [simp]:
  "\<not> loading (loadConfig_settle r e)" "\<not> loading (handleSave_settle q e)"
  by (simp_all add: loadConfig_settle_def handleSave_settle_def split: sum.splits)

lemma estep_inv: "estep ev s = Some s' \<Longrightarrow> esys_inv s \<Longrightarrow> esys_inv s'"
  by (cases ev) (auto simp: esys_inv_def saveStatusTimeout_def split: if_splits prod.splits)

lemma erun_inv: "erun es s = Some s' \<Longrightarrow> esys_inv s \<Longrightarrow> esys_inv s'"
proof (induction es arbitrary: s)
  case Nil
  then show ?case by simp
next
  case (Cons ev es)
  then obtain s1 where "estep ev s = Some s1" and "erun es s1 = Some s'"
    by (auto split: option.splits)
  with Cons show ?case by (blast intro: estep_inv)
qed

lemma editor_mount_inv: "esys_inv (editor_mount ac c0 st0)"
  by (simp add: editor_mount_def esys_inv_def Let_def)

lemma erun_loads_fifo:
  "n \<le> length (loads s) \<Longrightarrow>
   \<exists>s'. erun (replicate n (LoadDone 0)) s = Some s'
        \<and> loads s' = drop n (loads s) \<and> saves s' = saves s \<and> timers s' = timers s
        \<and> eActive s' = eActive s \<and> files s' = files s
        \<and> (0 < n \<longrightarrow> \<not> loading (ed s')
             \<and> (\<forall>c. backend_load (loads s ! (n - 1)) (files s) = Inr c
                    \<longrightarrow> cfg (ed s') = applyLoadDefaults c))"
proof (induction n arbitrary: s)
  case 0
  then show ?case by simp
next
  case (Suc n)
  let ?s1 = "s\<lparr>ed := loadConfig_settle (backend_load (loads s ! 0) (files s)) (ed s),
               loads := del_at 0 (loads s)\<rparr>"
  obtain x xs where l: "loads s = x # xs" using Suc.prems by (cases "loads s") auto
  have e: "estep (LoadDone 0) s = Some ?s1" using l by simp
  have "n \<le> length (loads ?s1)" using Suc.prems l by simp
  from Suc.IH [OF this] obtain s' where
    r: "erun (replicate n (LoadDone 0)) ?s1 = Some s'" and
    p: "loads s' = drop n (loads ?s1)" "saves s' = saves s" "timers s' = timers s"
       "eActive s' = eActive s" "files s' = files s" and
    c: "0 < n \<longrightarrow> \<not> loading (ed s')
          \<and> (\<forall>c. backend_load (loads ?s1 ! (n - 1)) (files s) = Inr c
                 \<longrightarrow> cfg (ed s') = applyLoadDefaults c)"
    by auto
  have "erun (replicate (Suc n) (LoadDone 0)) s = Some s'" using e r by simp
  moreover have "\<not> loading (ed s')
          \<and> (\<forall>c. backend_load (loads s ! n) (files s) = Inr c \<longrightarrow> cfg (ed s') = applyLoadDefaults c)"
  proof (cases n)
    case 0
    then show ?thesis using r l by (auto simp: loadConfig_settle_def split: sum.splits)
  next
    case (Suc m)
    then show ?thesis using c l by simp
  qed
  ultimately show ?case using p l by simp
qed


lemma erun_saves_fifo:
  "n \<le> length (saves s) \<Longrightarrow>
   \<exists>s'. erun (replicate n (SaveDone 0 (Inr ()))) s = Some s'
        \<and> saves s' = drop n (saves s) \<and> loads s' = loads s \<and> timers s' = timers s + n
        \<and> (0 < n \<longrightarrow> \<not> loading (ed s'))"
proof (induction n arbitrary: s)
  case 0
  then show ?case by simp
next
  case (Suc n)
  obtain x xs where l: "saves s = x # xs" using Suc.prems by (cases "saves s") auto
  obtain s1 where e: "estep (SaveDone 0 (Inr ())) s = Some s1" and
    p1: "saves s1 = xs" "loads s1 = loads s" "timers s1 = Suc (timers s)" "\<not> loading (ed s1)"
    using l by (cases x) simp
  have "n \<le> length (saves s1)" using Suc.prems l p1 by simp
  from Suc.IH [OF this] obtain s' where
    r: "erun (replicate n (SaveDone 0 (Inr ()))) s1 = Some s'" and
    p: "saves s' = drop n (saves s1)" "loads s' = loads s1" "timers s' = timers s1 + n"
       "0 < n \<longrightarrow> \<not> loading (ed s')"
    by blast
  have "erun (replicate (Suc n) (SaveDone 0 (Inr ()))) s = Some s'" using e r by simp
  moreover have "\<not> loading (ed s')" using p(4) r p1 by (cases n) auto
  ultimately show ?case using p p1 l by simp
qed

lemma erun_timers:
  "n \<le> timers s \<Longrightarrow>
   \<exists>s'. erun (replicate n TimerFires) s = Some s'
        \<and> timers s' = timers s - n \<and> loads s' = loads s \<and> saves s' = saves s
        \<and> loading (ed s') = loading (ed s)"
proof (induction n arbitrary: s)
  case 0
  then show ?case by simp
next
  case (Suc n)
  let ?s1 = "s\<lparr>ed := saveStatusTimeout (ed s), timers := timers s - 1\<rparr>"
  have e: "estep TimerFires s = Some ?s1" using Suc.prems by simp
  have "n \<le> timers ?s1" using Suc.prems by simp
  from Suc.IH [OF this] obtain s' where "erun (replicate n TimerFires) ?s1 = Some s'"
    "timers s' = timers ?s1 - n" "loads s' = loads s" "saves s' = saves s"
    "loading (ed s') = loading (ed ?s1)"
    by auto
  with e show ?case by (simp add: saveStatusTimeout_def)
qed

lemma backend_load_Inr: "store_load n st = Inr c \<Longrightarrow> backend_load n st = Inr c"
  by (simp add: backend_load_def)




subsection \<open>Properties of the editor as a system\<close>

text \<open>C21. The editor shows \<open>loading\<close> only while a \<open>LoadConfig\<close> or
  \<open>SaveConfig\<close> call is in flight, in every state reachable from its mount by any
  interleaving of clicks, selections, edits, settlements and timers.\<close>

theorem editor_loading_inflight:
  assumes "erun es (editor_mount ac c0 st0) = Some s" and "loading (ed s)"
  shows "loads s \<noteq> [] \<or> saves s \<noteq> []"
  using erun_inv [OF assms(1) editor_mount_inv] assms(2) by (simp add: esys_inv_def)


theorem editor_loading_inflight_witness:
  "\<exists>s. erun [Select ''b.yaml''] (editor_mount ''a.yaml'' defaultConfig es_store) = Some s
       \<and> loading (ed s) \<and> (loads s \<noteq> [] \<or> saves s \<noteq> [])"
proof -
  have "\<exists>s. erun [Select ''b.yaml''] (editor_mount ''a.yaml'' defaultConfig es_store) = Some s
            \<and> loading (ed s)"
    by (simp add: editor_mount_def)
  then obtain s where r: "erun [Select ''b.yaml''] (editor_mount ''a.yaml'' defaultConfig es_store) = Some s"
    and l: "loading (ed s)" by blast
  show ?thesis using editor_loading_inflight [OF r l] r l by blast
qed

text \<open>C24. Every run of the editor can be brought to rest: settling the calls in flight
  (oldest first) and then firing the pending timers is a run of \<open>estep\<close> that ends
  with nothing in flight, no timer pending and the buttons enabled again.\<close>

theorem editor_drains:
  assumes "erun es (editor_mount ac c0 st0) = Some s"
  shows "\<exists>s'. erun (drain s) s = Some s' \<and> loads s' = [] \<and> saves s' = [] \<and> timers s' = 0
              \<and> \<not> loading (ed s')"
proof -
  have inv: "esys_inv s" using erun_inv [OF assms editor_mount_inv] .
  obtain s1 where r1: "erun (replicate (length (loads s)) (LoadDone 0)) s = Some s1" and
    p1: "loads s1 = []" "saves s1 = saves s" "timers s1 = timers s"
        "loads s \<noteq> [] \<longrightarrow> \<not> loading (ed s1)"
    using erun_loads_fifo [of "length (loads s)" s] by auto
  have l1: "\<not> loading (ed s1)" if "saves s = []"
    using inv p1 r1 that by (cases "loads s = []") (auto simp: esys_inv_def)
  obtain s2 where r2: "erun (replicate (length (saves s)) (SaveDone 0 (Inr ()))) s1 = Some s2" and
    p2: "saves s2 = []" "loads s2 = []" "timers s2 = timers s + length (saves s)"
        "saves s \<noteq> [] \<longrightarrow> \<not> loading (ed s2)"
    using erun_saves_fifo [of "length (saves s1)" s1] p1 by auto
  have l2: "\<not> loading (ed s2)"
    using p2(4) l1 r2 by (cases "saves s = []") auto
  obtain s3 where r3: "erun (replicate (timers s + length (saves s)) TimerFires) s2 = Some s3" and
    p3: "timers s3 = 0" "loads s3 = []" "saves s3 = []" "loading (ed s3) = loading (ed s2)"
    using erun_timers [of "timers s2" s2] p2 by auto
  have "erun (drain s) s = Some s3"
    unfolding drain_def using r1 r2 r3 by (blast intro: erun_appendI)
  then show ?thesis using p3 l2 by auto
qed


theorem editor_drains_witness:
  "\<exists>s s'. erun [Select ''b.yaml'', ClickSave] (editor_mount ''a.yaml'' defaultConfig es_store) = None
       \<and> erun [Select ''b.yaml''] (editor_mount ''a.yaml'' defaultConfig es_store) = Some s
       \<and> erun (drain s) s = Some s' \<and> loads s' = [] \<and> saves s' = [] \<and> timers s' = 0
       \<and> \<not> loading (ed s')"
proof -
  have n: "erun [Select ''b.yaml'', ClickSave] (editor_mount ''a.yaml'' defaultConfig es_store) = None"
    by (simp add: editor_mount_def)
  have "\<exists>s. erun [Select ''b.yaml''] (editor_mount ''a.yaml'' defaultConfig es_store) = Some s"
    by (simp add: editor_mount_def)
  then obtain s where r: "erun [Select ''b.yaml''] (editor_mount ''a.yaml'' defaultConfig es_store) = Some s"
    by blast
  show ?thesis using editor_drains [OF r] r n by blast
qed

text \<open>C35. Loads that settle in the order they were issued leave the editor consistent:
  when the newest load in flight is for the selected file and the store holds \<open>c\<close> for
  it, settling the loads oldest first shows \<open>applyLoadDefaults c\<close>, for the selected
  file, with the buttons enabled.\<close>

theorem loads_in_order_consistent:
  assumes "loads s \<noteq> []" and "last (loads s) = eActive s"
    and "store_load (eActive s) (files s) = Inr c"
  shows "\<exists>s'. erun (replicate (length (loads s)) (LoadDone 0)) s = Some s'
              \<and> loads s' = [] \<and> eActive s' = eActive s \<and> \<not> loading (ed s')
              \<and> cfg (ed s') = applyLoadDefaults c"
proof -
  have "loads s ! (length (loads s) - 1) = eActive s"
    using assms(1,2) by (simp add: last_conv_nth)
  then have "backend_load (loads s ! (length (loads s) - 1)) (files s) = Inr c"
    using assms(3) by (simp add: backend_load_Inr)
  then show ?thesis using erun_loads_fifo [of "length (loads s)" s] assms(1) by auto
qed


theorem loads_in_order_consistent_witness:
  "\<exists>s s'. erun [Select ''b.yaml''] (editor_mount ''a.yaml'' defaultConfig es_store) = Some s
       \<and> loads s = [''a.yaml'', ''b.yaml''] \<and> last (loads s) = eActive s
       \<and> store_load (eActive s) (files s) = Inr cfg_b
       \<and> erun (replicate (length (loads s)) (LoadDone 0)) s = Some s'
       \<and> eActive s' = ''b.yaml'' \<and> cfg (ed s') = applyLoadDefaults cfg_b"
proof -
  have "\<exists>s. erun [Select ''b.yaml''] (editor_mount ''a.yaml'' defaultConfig es_store) = Some s
            \<and> loads s = [''a.yaml'', ''b.yaml''] \<and> eActive s = ''b.yaml''
            \<and> store_load (eActive s) (files s) = Inr cfg_b"
    by (simp add: editor_mount_def es_store_def store_load_def)
  then obtain s where r: "erun [Select ''b.yaml''] (editor_mount ''a.yaml'' defaultConfig es_store) = Some s"
    and l: "loads s = [''a.yaml'', ''b.yaml'']" and a: "eActive s = ''b.yaml''"
    and c: "store_load (eActive s) (files s) = Inr cfg_b" by blast
  have "loads s \<noteq> []" and "last (loads s) = eActive s" using l a by simp_all
  from loads_in_order_consistent [OF this c] show ?thesis using r l a c by auto
qed

text \<open>C20. A stale load wins (a race in the code). The editor is opened on
  \<open>a.yaml\<close> and the user selects \<open>b.yaml\<close> before the first load returns. If the load
  of \<open>b.yaml\<close> returns first, the late answer for \<open>a.yaml\<close> replaces the record on
  screen: the editor says it is editing \<open>b.yaml\<close>, nothing is in flight, the buttons are
  enabled and the form shows \<open>a.yaml\<close>'s content; saving then overwrites \<open>b.yaml\<close>
  with \<open>a.yaml\<close>'s record. In the other order, between the two answers \<open>loading\<close> is
  already false (it is one flag for all calls), so Save is enabled while the form shows
  \<open>a.yaml\<close>'s content under the name \<open>b.yaml\<close>, and a click sends that record for
  \<open>b.yaml\<close>.\<close>

theorem stale_load_overwrites:
  "(\<exists>s. erun [Select ''b.yaml'', LoadDone 1, LoadDone 0] (editor_mount ''a.yaml'' c0 es_store) = Some s
     \<and> eActive s = ''b.yaml'' \<and> loads s = [] \<and> \<not> loading (ed s) \<and> cfg (ed s) = defaultConfig
     \<and> store_load ''b.yaml'' (files s) = Inr cfg_b \<and> cfg_b \<noteq> defaultConfig
     \<and> (\<exists>s'. erun [ClickSave, SaveDone 0 (Inr ())] s = Some s'
             \<and> store_load ''b.yaml'' (files s') = Inr defaultConfig))
   \<and> (\<exists>s. erun [Select ''b.yaml'', LoadDone 0] (editor_mount ''a.yaml'' c0 es_store) = Some s
     \<and> eActive s = ''b.yaml'' \<and> loads s = [''b.yaml''] \<and> \<not> loading (ed s)
     \<and> cfg (ed s) = defaultConfig
     \<and> (\<exists>s'. estep ClickSave s = Some s' \<and> saves s' = [(''b.yaml'', defaultConfig)]))"
  by (simp add: editor_mount_def es_store_def backend_load_def store_load_def store_save_def
      loadConfig_settle_def handleSave_settle_def del_at_def applyLoadDefaults_def
      defaultConfig_def cfg_b_def)





text \<open>C25. The status timer of an earlier save clears the status of a later operation (a
  gap in the code): after a successful save, a reload clicked within the two seconds shows
  \<open>Loading...\<close>, and when the save's timer fires the status line goes blank while the
  load is still in flight.\<close>

theorem save_timer_clears_later_status:
  "\<exists>s s'. erun [LoadDone 0, ClickSave, SaveDone 0 (Inr ()), ClickReload]
              (editor_mount ''b.yaml'' c0 es_store) = Some s
     \<and> status (ed s) = st_loading \<and> loading (ed s) \<and> timers s = 1
     \<and> estep TimerFires s = Some s' \<and> status (ed s') = [] \<and> loading (ed s') \<and> loads s' = [''b.yaml'']"
  by (simp add: editor_mount_def es_store_def backend_load_def store_load_def store_save_def
      loadConfig_settle_def handleSave_settle_def saveStatusTimeout_def del_at_def)



end
