(* ===== verification/Spec2Isabelle.thy ===== *)
theory Spec2Isabelle
  imports TaskController EditorSystem
begin

text \<open>
  \<^bold>\<open>AutoCDN front end: a verification model.\<close>

  AutoCDN is a Wails desktop application: a Go backend runs an IP/CDN speed test and
  updates DNS records; a React front end (\<open>src/frontend/src\<close>, four TypeScript files)
  selects a configuration, starts and stops the test, shows its live output and edits the
  configuration files. This development models the front end, file by file, as HOL
  definitions, and proves what makes it correct and where it departs from its spec.

  \<^bold>\<open>Parts and how they interact.\<close>
  \<^item> \<open>App.tsx\<close> holds \<open>activeTab\<close> and \<open>activeConfig\<close> and renders the Sidebar with
    either the Dashboard or the ConfigEditor. Switching tabs unmounts one and mounts the
    other, with fresh state.
  \<^item> \<open>Dashboard.tsx\<close> is the task controller and the event-stream multiplexer: its
    start buttons call \<open>StartSpeedTest(activeConfig, mode)\<close> and await its promise, the
    stop buttons call \<open>StopSpeedTest\<close>, and a mount effect subscribes to the four Wails
    channels \<open>log\<close>, \<open>status\<close>, \<open>progress\<close>, \<open>error\<close>.
  \<^item> \<open>ConfigEditor.tsx\<close> loads the active configuration whenever it changes, applies
    load-time defaults, lets the user edit every field through a form and saves it; its
    loads and saves are in flight concurrently with the user's actions.
  \<^item> \<open>Sidebar.tsx\<close> lists, creates and deletes configuration files and sets
    \<open>activeConfig\<close>.
  The Go backend is not part of \<open>src/\<close>: it appears as the environment of the model
  (settlements of promises and channel messages are nondeterministic steps) and, for the
  configuration files, as a store modelled from the spec (section 4.3).

  \<^bold>\<open>Theories.\<close>
  \<^item> \<open>Prelude\<close>: the JavaScript built-ins the handlers use (\<open>slice(-n)\<close>, \<open>||\<close>,
    \<open>parseInt\<close>, \<open>parseFloat\<close>, \<open>split\<close>/\<open>join\<close> on newlines, \<open>trim\<close>,
    \<open>endsWith\<close>), the type \<open>jsnum\<close> of numbers that may be NaN, and their lemmas
    (the 100-line window absorbs itself, \<open>join (split s) = s\<close>, \<open>trim\<close> is idempotent).
  \<^item> \<open>Events\<close> (Dashboard.tsx lines 18--48): the Dashboard state \<open>dash\<close>, the channel
    messages \<open>event\<close>, the four handlers \<open>onLog\<close>, \<open>onStatus\<close>, \<open>onProgress\<close>,
    \<open>onError\<close>, their routing \<open>dispatch\<close> and a run of messages \<open>deliver\<close>. Lemmas
    C10, C12, C15--C18: the log is a 100-line window on the unbounded history (a refinement
    of an append-only log), eviction of the oldest line, the progress rule and its gaps.
  \<^item> \<open>DashboardView\<close> (Dashboard.tsx lines 79--202): what the Dashboard renders,
    \<open>dashboard_view\<close>, with the two cards' buttons; C19 shows the view is well formed.
  \<^item> \<open>TaskController\<close> (Dashboard.tsx lines 54--78 and App.tsx): \<open>handleStart\<close>
    split at its \<open>await\<close> into the synchronous prefix and \<open>handleStart_settle\<close>,
    \<open>handleStop\<close>, the subscription table, and the whole front end as the state
    \<open>sys\<close> with the inductive step relation \<open>sys_step\<close> (clicks on the buttons the view
    offers, channel messages, settlements, tab switches, selections) and \<open>reachable\<close>. The
    invariant \<open>sys_inv\<close> is proved by rule induction, one lemma per step (C1--C9, C11,
    C13, C14, C22).
  \<^item> \<open>Config\<close> (ConfigEditor.tsx): the records \<open>config\<close> and \<open>editor\<close>,
    \<open>applyLoadDefaults\<close>, \<open>loadConfig\<close>/\<open>handleSave\<close> split at their \<open>await\<close>,
    \<open>handleChange\<close>, \<open>handleArrayChange\<close>, and the form bindings \<open>fieldValue\<close>,
    \<open>fieldOnChange\<close>, \<open>switchValue\<close>, \<open>switchOnChange\<close>, \<open>inputDisabled\<close>
    (C23, C26--C28, C30--C32; C31 rests on \<open>parseInt\<close> reading back \<open>String(i)\<close>).
  \<^item> \<open>ConfigStore\<close> (Sidebar.tsx and the spec's store): the store operations with
    their errors NotFound, NameConflict and ValidationFailure, the Sidebar record and its
    handlers \<open>refreshConfigs\<close>, \<open>handleCreateConfig\<close>, \<open>normalizeName\<close>,
    \<open>handleDelete\<close>, its render \<open>sidebar_view\<close> and the user's actions \<open>sb_step\<close>
    (C33, C34, C36--C38).
  \<^item> \<open>EditorSystem\<close> (ConfigEditor.tsx lines 11--117): the editor with its calls in
    flight, the App's \<open>activeConfig\<close> and the store, as an executable step function
    \<open>estep\<close> on events (selections, reload and save clicks, settlements in any order,
    the status timer, edits) and runs \<open>erun\<close> (C20, C21, C24, C25, C29, C35, C39).
  \<^item> This theory: a property across components (C40).

  \<^bold>\<open>Modelling choices.\<close> Every React state update is a record update; an async
  handler is split at each \<open>await\<close>, and what may happen in between is a step of
  \<open>sys_step\<close> (the Dashboard) or of \<open>estep\<close> (the editor). The Sidebar's handlers run
  their awaited calls to completion. A Dashboard mount gets a fresh instance number; a
  settlement or message reaching an unmounted instance has no effect, as a React state
  update of an unmounted component has none. A control is a step only where the render
  offers it: the Dashboard's clicks are guarded by \<open>dashboard_view\<close>, the editor's by
  \<open>activeConfig\<close> and \<open>disabled={loading}\<close>, the Sidebar's by \<open>isCreating\<close> and the
  listed files. JavaScript numbers are rationals (exact) or \<open>jsnum\<close> where NaN matters;
  strings are \<open>string\<close>; the code's Chinese literals are replaced by ASCII translations
  (the properties depend only on their being distinct). No loop of the code is unbounded:
  runs are lists of messages or events, and the liveness results (C11, C24) exhibit the
  finite run that settles everything, so no fuel is needed.

  \<^bold>\<open>What the properties show.\<close> A run is started only from an idle, mounted Dashboard
  with a selected configuration; its promise's settlement always ends it (running false,
  100 percent, a fatal line on failure), and channel messages never do; within one
  Dashboard instance at most one start is pending, and while running no second start is
  sent; from every reachable state the run that settles every pending start keeps the
  Dashboard mounted and returns it to idle. Subscriptions are scoped to the mounted instance and released on
  teardown, so messages are delivered once and not at all after teardown. Load-time
  defaulting is correct; each form input edits only its field; the domain
  textarea and the integer inputs round-trip. The editor shows \<open>loading\<close> only with a call in flight, every
  editor run can be brought to rest, loads settling in issue order are consistent, a save
  in flight writes the record of its click whatever happens meanwhile, and saving then
  reloading shows the normalised form of the saved record. The
  Sidebar's list always matches the store, whose names stay distinct.

  \<^bold>\<open>Findings.\<close> Remounting the Dashboard during a run hides its stop button and allows
  a second concurrent start (C7); the fatal line bypasses the 100-line window, so 101 lines
  are reachable (C14); the progress percentage is not clamped (C17) and a progress message
  without text resets the status (C18); a stale load of the previously selected file can
  replace the editor's record, and Save then overwrites the newly selected file, and one
  \<open>loading\<close> flag for all calls enables Save while a load is in flight (C20); the
  status timer of a save blanks the status of a later load (C25); clearing the domain
  textarea stores one empty domain; display fallbacks are not saved (C30);
  deleting the active configuration leaves none selected (C38).

  \<^bold>\<open>Not modelled.\<close> The Go backend itself (the probing engine, DNS updates, file format),
  beyond the spec's store contract; the generated Wails bindings; layout, class names,
  icons and \<open>scrollIntoView\<close>, which have no state effect; the fields of the record the
  editor holds before its first load (a parameter of \<open>editor_mount\<close>); unmounting the
  editor while its calls are in flight; the \<open>confirm\<close> dialog (a boolean of
  \<open>handleDelete\<close>); Unicode white space in \<open>trim\<close>; \<open>parseInt\<close>'s hexadecimal
  prefix, which a number input never produces.
\<close>

subsection \<open>Properties across components\<close>

text \<open>C40. Create, then start: after the Sidebar creates a fresh configuration, it is the
  App's \<open>activeConfig\<close>, and a start click on an idle Dashboard sends
  \<open>StartSpeedTest\<close> with exactly the normalised name.\<close>

theorem create_then_start:
  assumes "js_trim (newConfigName w) \<noteq> []"
    and "normalizeName (js_trim (newConfigName w)) \<notin> set (store_list (store w))"
    and "dashSt s = Some d" and "\<not> running d"
  shows "sys_step (selectConfig (active (handleCreateConfig w)) s)
           (startRun m (selectConfig (active (handleCreateConfig w)) s))
    \<and> sent (startRun m (selectConfig (active (handleCreateConfig w)) s))
        = sent s @ [StartSpeedTest (normalizeName (js_trim (newConfigName w))) m]"
proof -
  let ?n = "normalizeName (js_trim (newConfigName w))"
  let ?s = "selectConfig (active (handleCreateConfig w)) s"
  have a: "active (handleCreateConfig w) = ?n" using assms(1,2) by (rule handleCreateConfig_active)
  have ne: "?n \<noteq> []" using assms(1) by (rule normalizeName_nonempty)
  have d: "dashSt ?s = Some d" and c: "activeConfig ?s = ?n"
    using assms(3) a by (simp_all add: selectConfig_def)
  have "activeConfig ?s \<noteq> []" using c ne by simp
  then have "sys_step ?s (startRun m ?s)" using d assms(4) by (metis click_startI)
  moreover have "sent (startRun m ?s) = sent s @ [StartSpeedTest ?n m]"
    using d c ne by (simp add: startRun_def handleStart_def selectConfig_def)
  ultimately show ?thesis by simp
qed

theorem create_then_start_witness:
  "js_trim (newConfigName sb_example) \<noteq> []
   \<and> ''b.yaml'' \<notin> set (store_list (store sb_example))
   \<and> dashSt sys_init = Some dash_init \<and> \<not> running dash_init
   \<and> sent (startRun Auto (selectConfig (active (handleCreateConfig sb_example)) sys_init))
       = [StartSpeedTest ''b.yaml'' Auto]"
proof -
  have d: "dashSt sys_init = Some dash_init" by (simp add: sys_init_def)
  have r: "\<not> running dash_init" by (simp add: dash_init_def)
  show ?thesis
    using create_then_start [of sb_example sys_init dash_init Auto] sb_example_name sb_example_fresh d r
    by (simp add: sys_init_def)
qed

end
